theory Spec2Isabelle
  imports Complex_Main "HOL-Library.Signed_Division"
begin

section \<open>The Hermes2D objects the two drivers work with\<close>

text \<open>
  The development embeds the adaptivity loop of \<^verbatim>\<open>D-adaptivity/05-hcurl/main.cpp\<close> (the static
  driver) and the time-stepping loop with its nested adaptivity loop of
  \<^verbatim>\<open>D-adaptivity/08-transient-space-only/main.cpp\<close> (the transient driver).

  Both drivers are clients of the Hermes2D library. What the library computes (reference
  spaces, solves, projections, error estimates, refinements) is not part of the repository, so
  every library call is a field of the record \<open>library\<close> below and the drivers are functions of
  it. The objects the library keeps behind a pointer (the Newton solver, the Runge-Kutta stepper,
  the \<^verbatim>\<open>Adapt\<close> object with its per-element errors) are values of an opaque type that a call
  takes and returns. An argument that a call only reads is not returned.

  A \<^verbatim>\<open>double\<close> is a \<open>real\<close>: the drivers multiply an error by 100, compare it with
  \<^verbatim>\<open>ERR_STOP\<close>, and add the time step to the current time. A DOF count is a \<open>nat\<close>.
  A library call that stands outside a \<^verbatim>\<open>try\<close> block is taken to return; for the calls
  inside a \<^verbatim>\<open>try\<close> block the exception is part of the result. The views and the VTK
  output only read the solution and the space and are left out.
\<close>

datatype exn = Exception string

text \<open>
  Mesh and space together: the active elements, each with its geometry (opaque) and its
  polynomial order in the horizontal and the vertical direction. \<^verbatim>\<open>mesh\<close> and
  \<^verbatim>\<open>space\<close> of the source are two pointers into this one object (the space holds the mesh).
\<close>

record 'g element =
  geom :: 'g
  h_order :: int
  v_order :: int

type_synonym 'g discretization = "'g element list"

text \<open>
  What the drivers print, one constructor for each output statement of the source. A message
  holds the values handed to the statement, not the characters printed from them: the formats
  \<^verbatim>\<open>%f\<close> and \<^verbatim>\<open>%g\<close> of lines 162 and 209 show six digits, so two messages that differ
  in the estimate can print the same line.
\<close>

datatype msg =
    PrintMsg exn
  | CoutWhat exn
  | Info string
  | InfoErrorEstimate real
  | InfoStep int int
  | InfoNdof nat nat real

record ('g, 'f, 'a, 'n, 'rk) library =
  get_num_dofs :: "'g discretization \<Rightarrow> nat"
  create_ref_space :: "'g discretization \<Rightarrow> 'g discretization"
  project_global :: "'g discretization \<Rightarrow> 'f \<Rightarrow> 'f"
  new_Adapt :: "'g discretization \<Rightarrow> 'a"
  calc_err_est :: "'a \<Rightarrow> 'f \<Rightarrow> 'f \<Rightarrow> real \<times> 'a"
  adapt :: "'a \<Rightarrow> 'g discretization \<Rightarrow> bool \<times> 'g discretization"
  newton_set_space :: "'g discretization \<Rightarrow> 'n \<Rightarrow> 'n"
  newton_solve :: "'n \<Rightarrow> complex list \<Rightarrow> exn option \<times> 'n"
  newton_get_sln_vector :: "'n \<Rightarrow> complex list"
  vector_to_solution :: "complex list \<Rightarrow> 'g discretization \<Rightarrow> 'f"
  rk_set_space :: "'g discretization \<Rightarrow> 'rk \<Rightarrow> 'rk"
  rk_set_time :: "real \<Rightarrow> 'rk \<Rightarrow> 'rk"
  rk_set_time_step :: "real \<Rightarrow> 'rk \<Rightarrow> 'rk"
  rk_time_step_newton :: "'rk \<Rightarrow> 'f \<Rightarrow> 'f \<Rightarrow> exn option \<times> 'rk \<times> 'f"
  mesh_copy :: "'g list \<Rightarrow> 'g discretization \<Rightarrow> 'g discretization"
  unrefine_all_elements :: "'g discretization \<Rightarrow> 'g discretization"

text \<open>
  The parameters at the head of the two files ("The following parameters can be changed").
  \<^verbatim>\<open>NDOF_STOP\<close> is used by both loops and defined in neither file, so it has no default.
  The static driver has no time stepping; its configuration carries the values of the other
  file in the fields it does not read, with a time interval of length zero.
\<close>

record config =
  P_INIT :: int
  INIT_REF_NUM :: int
  THRESHOLD :: real
  ERR_STOP :: real
  NDOF_STOP :: int
  time_step :: real
  T_FINAL :: real
  UNREF_FREQ :: int
  UNREF_METHOD :: int

definition hcurl_config :: "int \<Rightarrow> config" where
  "hcurl_config ndof_stop =
     \<lparr>P_INIT = 2, INIT_REF_NUM = 1, THRESHOLD = 0.3, ERR_STOP = 1.0, NDOF_STOP = ndof_stop,
      time_step = 0, T_FINAL = 0, UNREF_FREQ = 1, UNREF_METHOD = 3\<rparr>"

definition transient_config :: "int \<Rightarrow> config" where
  "transient_config ndof_stop =
     \<lparr>P_INIT = 2, INIT_REF_NUM = 2, THRESHOLD = 0.3, ERR_STOP = 1.0, NDOF_STOP = ndof_stop,
      time_step = 0.05, T_FINAL = 2.0, UNREF_FREQ = 1, UNREF_METHOD = 3\<rparr>"

text \<open>
  Modelled from the spec: \<^verbatim>\<open>Adapt::calc_err_exact\<close> is a function of the library. The spec
  gives it the mechanics of the error estimate, measured against the exact solution, and keeps
  it away from the refinement: with \<^verbatim>\<open>solutions_for_adapt = false\<close> the per-element errors
  that \<^verbatim>\<open>adapt\<close> reads stay those of the estimate.
\<close>

definition calc_err_exact ::
  "('g, 'f, 'a, 'n, 'rk) library \<Rightarrow> 'a \<Rightarrow> 'f \<Rightarrow> 'f \<Rightarrow> bool \<Rightarrow> real \<times> 'a" where
  "calc_err_exact lib ad sl exact solutions_for_adapt =
     (let (e, ad') = calc_err_est lib ad sl exact
      in (e, if solutions_for_adapt then ad' else ad))"

text \<open>
  Modelled from the spec: \<^verbatim>\<open>Space::set_uniform_order\<close> and
  \<^verbatim>\<open>Space::adjust_element_order\<close> are functions of the library. The first resets every
  element to the given degree; the second changes every element's degree by the given amount,
  bounded below by the given minimum (one change and one minimum for each direction).
\<close>

definition set_uniform_order :: "int \<Rightarrow> 'g discretization \<Rightarrow> 'g discretization" where
  "set_uniform_order p sp = map (\<lambda>e. e\<lparr>h_order := p, v_order := p\<rparr>) sp"

definition adjust_element_order ::
  "int \<Rightarrow> int \<Rightarrow> int \<Rightarrow> int \<Rightarrow> 'g discretization \<Rightarrow> 'g discretization" where
  "adjust_element_order h_change v_change h_min v_min sp =
     map (\<lambda>e. e\<lparr>h_order := max h_min (h_order e + h_change),
                v_order := max v_min (v_order e + v_change)\<rparr>) sp"

section \<open>The loops\<close>

text \<open>
  \<^verbatim>\<open>do { body } while (done == false)\<close>: the body runs, then the flag is read. A loop that
  never sets the flag has no result, which is \<open>None\<close>.
\<close>

partial_function (option) do_while :: "('s \<Rightarrow> 's) \<Rightarrow> ('s \<Rightarrow> bool) \<Rightarrow> 's \<Rightarrow> 's option" where
  "do_while body finished s =
     (let s' = body s in if finished s' then Some s' else do_while body finished s')"

declare do_while.simps [code]

text \<open>What both adaptivity loops keep: the working discretization, the step counter, the flag,
  and the output printed so far.\<close>

record 'g controller =
  space :: "'g discretization"
  as :: int
  done_flag :: bool
  logged :: "msg list"

section \<open>The static driver (05-hcurl)\<close>

record ('g, 'f, 'n) hcurl_state = "'g controller" +
  sln :: 'f
  ref_sln :: 'f
  sln_exact :: 'f
  newton :: 'n
  graph_dof_est :: "(nat \<times> real) list"
  graph_cpu_est :: "(real \<times> real) list"
  graph_dof_exact :: "(nat \<times> real) list"
  graph_cpu_exact :: "(real \<times> real) list"
  conv_dof_est_dat :: "(nat \<times> real) list"
  conv_dof_exact_dat :: "(nat \<times> real) list"

text \<open>Lines 118-122: the reference space of the step.\<close>

definition ref_space_of ::
  "('g, 'f, 'a, 'n, 'rk) library \<Rightarrow> 'g discretization \<Rightarrow> 'g discretization" where
  "ref_space_of lib sp = create_ref_space lib sp"

text \<open>Lines 125-129: \<^verbatim>\<open>new complex[ndof_ref]\<close>, then \<^verbatim>\<open>memset\<close> to zero.\<close>

definition coeff_vec ::
  "('g, 'f, 'a, 'n, 'rk) library \<Rightarrow> ('g, 'f, 'n) hcurl_state \<Rightarrow> complex list" where
  "coeff_vec lib s = replicate (get_num_dofs lib (ref_space_of lib (space s))) 0"

text \<open>Lines 124-139: the solve, its handler, and the reference solution made from the vector
  the solver holds afterwards.\<close>

definition solve_reference ::
  "('g, 'f, 'a, 'n, 'rk) library \<Rightarrow> ('g, 'f, 'n) hcurl_state \<Rightarrow> ('g, 'f, 'n) hcurl_state" where
  "solve_reference lib s =
     (let ref_space = ref_space_of lib (space s);
          (failure, nw) = newton_solve lib (newton_set_space lib ref_space (newton s)) (coeff_vec lib s)
      in s\<lparr>logged := logged s @ (case failure of None \<Rightarrow> [] | Some e \<Rightarrow> [PrintMsg e]),
            ref_sln := vector_to_solution lib (newton_get_sln_vector lib nw) ref_space,
            newton := nw\<rparr>)"

text \<open>Lines 141-143.\<close>

definition project_coarse ::
  "('g, 'f, 'a, 'n, 'rk) library \<Rightarrow> ('g, 'f, 'n) hcurl_state \<Rightarrow> ('g, 'f, 'n) hcurl_state" where
  "project_coarse lib s = s\<lparr>sln := project_global lib (space s) (ref_sln s)\<rparr>"

text \<open>Lines 156-166: the \<^verbatim>\<open>Adapt\<close> object of the step, the estimate and the exact error, both
  in percent.\<close>

definition estimate_errors ::
  "('g, 'f, 'a, 'n, 'rk) library \<Rightarrow> ('g, 'f, 'n) hcurl_state \<Rightarrow> real \<times> real \<times> 'a" where
  "estimate_errors lib s =
     (let (e, adaptivity) = calc_err_est lib (new_Adapt lib (space s)) (sln s) (ref_sln s);
          err_est_rel = e * 100;
          solutions_for_adapt = False;
          (x, adaptivity') = calc_err_exact lib adaptivity (sln s) (sln_exact s) solutions_for_adapt;
          err_exact_rel = x * 100
      in (err_est_rel, err_exact_rel, adaptivity'))"

text \<open>Lines 168-172: one entry for each of the two DOF graphs, each saved to its file. The
  file is the list of the pairs of the graph at its last save; the digits \<^verbatim>\<open>save\<close> writes
  for a pair are the library's.\<close>

definition add_graph_entries ::
  "('g, 'f, 'a, 'n, 'rk) library \<Rightarrow> real \<Rightarrow> real \<Rightarrow> ('g, 'f, 'n) hcurl_state \<Rightarrow>
   ('g, 'f, 'n) hcurl_state" where
  "add_graph_entries lib err_est_rel err_exact_rel s =
     (let est = graph_dof_est s @ [(get_num_dofs lib (space s), err_est_rel)];
          exact = graph_dof_exact s @ [(get_num_dofs lib (space s), err_exact_rel)]
      in s\<lparr>graph_dof_est := est, conv_dof_est_dat := est,
            graph_dof_exact := exact, conv_dof_exact_dat := exact\<rparr>)"

text \<open>Lines 174-183. The source writes \<^verbatim>\<open>adaptivity.adapt(&selector)\<close>; inside the loop
  the name is the \<^verbatim>\<open>Adapt\<close> object made at line 157, the one that holds the element errors
  of the step, and the call is read as a call on it.\<close>

definition decide ::
  "config \<Rightarrow> ('g, 'f, 'a, 'n, 'rk) library \<Rightarrow> 'a \<Rightarrow> real \<Rightarrow> ('g, 'f, 'n) hcurl_state \<Rightarrow>
   ('g, 'f, 'n) hcurl_state" where
  "decide cfg lib adaptivity err_est_rel s =
     (let s1 = (if err_est_rel < ERR_STOP cfg then s\<lparr>done_flag := True\<rparr>
                else (let (d, sp) = adapt lib adaptivity (space s)
                      in s\<lparr>space := sp, done_flag := d,
                            as := (if d = False then as s + 1 else as s)\<rparr>))
      in if NDOF_STOP cfg \<le> int (get_num_dofs lib (space s1)) then s1\<lparr>done_flag := True\<rparr> else s1)"

text \<open>Lines 117-188: the body of the loop.\<close>

definition adaptivity_step ::
  "config \<Rightarrow> ('g, 'f, 'a, 'n, 'rk) library \<Rightarrow> ('g, 'f, 'n) hcurl_state \<Rightarrow>
   ('g, 'f, 'n) hcurl_state" where
  "adaptivity_step cfg lib s =
     (let s1 = project_coarse lib (solve_reference lib s);
          (err_est_rel, err_exact_rel, adaptivity) = estimate_errors lib s1;
          s2 = s1\<lparr>logged := logged s1 @ [InfoErrorEstimate err_est_rel]\<rparr>;
          s3 = add_graph_entries lib err_est_rel err_exact_rel s2
      in decide cfg lib adaptivity err_est_rel s3)"

text \<open>Lines 101-103 and 114-189: the graphs start empty, \<^verbatim>\<open>as = 1\<close>, \<^verbatim>\<open>done = false\<close>.\<close>

definition hcurl_start :: "('g, 'f, 'n) hcurl_state \<Rightarrow> ('g, 'f, 'n) hcurl_state" where
  "hcurl_start s =
     s\<lparr>as := 1, done_flag := False, graph_dof_est := [], graph_cpu_est := [],
       graph_dof_exact := [], graph_cpu_exact := []\<rparr>"

definition adaptivity_loop ::
  "config \<Rightarrow> ('g, 'f, 'a, 'n, 'rk) library \<Rightarrow> ('g, 'f, 'n) hcurl_state \<Rightarrow>
   ('g, 'f, 'n) hcurl_state option" where
  "adaptivity_loop cfg lib s = do_while (adaptivity_step cfg lib) done_flag s"

definition hcurl_main ::
  "config \<Rightarrow> ('g, 'f, 'a, 'n, 'rk) library \<Rightarrow> ('g, 'f, 'n) hcurl_state \<Rightarrow>
   (int \<times> ('g, 'f, 'n) hcurl_state) option" where
  "hcurl_main cfg lib s =
     (case adaptivity_loop cfg lib (hcurl_start s) of None \<Rightarrow> None | Some s' \<Rightarrow> Some (0, s'))"

section \<open>The transient driver (08-transient-space-only)\<close>

record ('g, 'f, 'rk) transient_state = "'g controller" +
  basemesh :: "'g list"
  sln_time_prev :: 'f
  sln_time_new :: 'f
  runge_kutta :: 'rk
  ndof_coarse :: nat
  current_time :: real
  ts :: int

text \<open>The remainder of an \<^verbatim>\<open>int\<close> division by zero has no value in C++; the run ends there.\<close>

datatype crash = DivisionByZero

text \<open>Line 141: \<^verbatim>\<open>ts > 1 && ts % UNREF_FREQ == 0\<close>. The remainder is taken only when
  \<^verbatim>\<open>ts > 1\<close> holds; \<open>smod\<close> is the remainder of the truncating division.\<close>

definition derefinement_due :: "config \<Rightarrow> int \<Rightarrow> crash + bool" where
  "derefinement_due cfg t =
     (if 1 < t then (if UNREF_FREQ cfg = 0 then Inl DivisionByZero
                     else Inr (t smod UNREF_FREQ cfg = 0))
      else Inr False)"

text \<open>Lines 144-154: the \<^verbatim>\<open>switch\<close> on \<^verbatim>\<open>UNREF_METHOD\<close>; it has no default case.\<close>

definition derefine ::
  "config \<Rightarrow> ('g, 'f, 'a, 'n, 'rk) library \<Rightarrow> 'g list \<Rightarrow> 'g discretization \<Rightarrow>
   'g discretization" where
  "derefine cfg lib base sp =
     (if UNREF_METHOD cfg = 1 then set_uniform_order (P_INIT cfg) (mesh_copy lib base sp)
      else if UNREF_METHOD cfg = 2 then
        set_uniform_order (P_INIT cfg) (unrefine_all_elements lib sp)
      else if UNREF_METHOD cfg = 3 then
        adjust_element_order (- 1) (- 1) (P_INIT cfg) (P_INIT cfg) (unrefine_all_elements lib sp)
      else sp)"

text \<open>Lines 143-166. \<^verbatim>\<open>assign_dofs\<close> renumbers the degrees of freedom, which the element
  list does not hold; the count is read from the new discretization. The handler of the
  \<^verbatim>\<open>try\<close> block would print and leave \<^verbatim>\<open>ndof_coarse\<close>, a variable that is not read
  again.\<close>

definition global_derefinement ::
  "config \<Rightarrow> ('g, 'f, 'a, 'n, 'rk) library \<Rightarrow> ('g, 'f, 'rk) transient_state \<Rightarrow>
   ('g, 'f, 'rk) transient_state" where
  "global_derefinement cfg lib s =
     (let sp = derefine cfg lib (basemesh s) (space s)
      in s\<lparr>logged := logged s @ [Info ''Global mesh derefinement.''],
            space := sp, ndof_coarse := get_num_dofs lib sp\<rparr>)"

text \<open>Lines 140-167.\<close>

definition periodic_derefinement ::
  "config \<Rightarrow> ('g, 'f, 'a, 'n, 'rk) library \<Rightarrow> ('g, 'f, 'rk) transient_state \<Rightarrow>
   crash + ('g, 'f, 'rk) transient_state" where
  "periodic_derefinement cfg lib s =
     (case derefinement_due cfg (ts s) of
        Inl c \<Rightarrow> Inl c
      | Inr due \<Rightarrow> Inr (if due then global_derefinement cfg lib s else s))"

text \<open>Lines 174-196: the message of the step, the reference space, and the Runge-Kutta step
  with its handler. The stepper writes the new solution into \<^verbatim>\<open>sln_time_new\<close>; what it
  leaves there when it throws is what the rest of the step reads.\<close>

definition rk_solve ::
  "config \<Rightarrow> ('g, 'f, 'a, 'n, 'rk) library \<Rightarrow> ('g, 'f, 'rk) transient_state \<Rightarrow>
   ('g, 'f, 'rk) transient_state" where
  "rk_solve cfg lib s =
     (let ref_space = ref_space_of lib (space s);
          rk = rk_set_time_step lib (time_step cfg)
                 (rk_set_time lib (current_time s) (rk_set_space lib ref_space (runge_kutta s)));
          (failure, rk', new) = rk_time_step_newton lib rk (sln_time_prev s) (sln_time_new s)
      in s\<lparr>logged := logged s @ [InfoStep (ts s) (as s)]
                       @ (case failure of None \<Rightarrow> [] | Some e \<Rightarrow> [CoutWhat e]),
            runge_kutta := rk', sln_time_new := new\<rparr>)"

text \<open>Lines 198-206: the projection and the estimate in percent, with the \<^verbatim>\<open>Adapt\<close> object
  of the step.\<close>

definition estimate_error ::
  "('g, 'f, 'a, 'n, 'rk) library \<Rightarrow> ('g, 'f, 'rk) transient_state \<Rightarrow> real \<times> 'a" where
  "estimate_error lib s =
     (let sln_coarse = project_global lib (space s) (sln_time_new s);
          (e, adaptivity) = calc_err_est lib (new_Adapt lib (space s)) sln_coarse (sln_time_new s);
          err_est_rel_total = e * 100
      in (err_est_rel_total, adaptivity))"

text \<open>Lines 200, 204 and 208-210: what the step prints between the solve and the decision.\<close>

definition report_results ::
  "('g, 'f, 'a, 'n, 'rk) library \<Rightarrow> real \<Rightarrow> ('g, 'f, 'rk) transient_state \<Rightarrow>
   ('g, 'f, 'rk) transient_state" where
  "report_results lib err_est_rel_total s =
     s\<lparr>logged := logged s @
        [Info ''Projecting fine mesh solution on coarse mesh for error estimation.'',
         Info ''Calculating error estimate.'',
         InfoNdof (get_num_dofs lib (space s)) (get_num_dofs lib (ref_space_of lib (space s)))
           err_est_rel_total]\<rparr>"

text \<open>Lines 212-224, with \<^verbatim>\<open>adaptivity.adapt(&selector)\<close> read as in the static driver
  (the object made at line 205).\<close>

definition decide_transient ::
  "config \<Rightarrow> ('g, 'f, 'a, 'n, 'rk) library \<Rightarrow> 'a \<Rightarrow> real \<Rightarrow> ('g, 'f, 'rk) transient_state \<Rightarrow>
   ('g, 'f, 'rk) transient_state" where
  "decide_transient cfg lib adaptivity err_est_rel_total s =
     (if err_est_rel_total < ERR_STOP cfg then s\<lparr>done_flag := True\<rparr>
      else (let (d, sp) = adapt lib adaptivity (space s);
                s1 = s\<lparr>logged := logged s @ [Info ''Adapting the coarse mesh.''],
                       space := sp, done_flag := d\<rparr>
            in if NDOF_STOP cfg \<le> int (get_num_dofs lib sp) then s1\<lparr>done_flag := True\<rparr>
               else s1\<lparr>as := as s + 1\<rparr>))"

text \<open>Lines 173-238: the body of the spatial adaptivity loop.\<close>

definition spatial_adaptivity_step ::
  "config \<Rightarrow> ('g, 'f, 'a, 'n, 'rk) library \<Rightarrow> ('g, 'f, 'rk) transient_state \<Rightarrow>
   ('g, 'f, 'rk) transient_state" where
  "spatial_adaptivity_step cfg lib s =
     (let s1 = rk_solve cfg lib s;
          (err_est_rel_total, adaptivity) = estimate_error lib s1
      in decide_transient cfg lib adaptivity err_est_rel_total
           (report_results lib err_est_rel_total s1))"

text \<open>Line 171: \<^verbatim>\<open>bool done = false; int as = 1;\<close>\<close>

definition spatial_start :: "('g, 'f, 'rk) transient_state \<Rightarrow> ('g, 'f, 'rk) transient_state" where
  "spatial_start s = s\<lparr>done_flag := False, as := 1\<rparr>"

text \<open>Lines 173-239.\<close>

definition spatial_adaptivity_loop ::
  "config \<Rightarrow> ('g, 'f, 'a, 'n, 'rk) library \<Rightarrow> ('g, 'f, 'rk) transient_state \<Rightarrow>
   ('g, 'f, 'rk) transient_state option" where
  "spatial_adaptivity_loop cfg lib s = do_while (spatial_adaptivity_step cfg lib) done_flag s"

text \<open>Lines 241-245: what follows the adaptivity loop in a time step.\<close>

definition advance_time ::
  "config \<Rightarrow> ('g, 'f, 'rk) transient_state \<Rightarrow> ('g, 'f, 'rk) transient_state" where
  "advance_time cfg s =
     s\<lparr>sln_time_prev := sln_time_new s, current_time := current_time s + time_step cfg,
       ts := ts s + 1\<rparr>"

text \<open>Lines 139-246: the body of the time stepping loop.\<close>

definition time_step_body ::
  "config \<Rightarrow> ('g, 'f, 'a, 'n, 'rk) library \<Rightarrow> ('g, 'f, 'rk) transient_state \<Rightarrow>
   (crash + ('g, 'f, 'rk) transient_state) option" where
  "time_step_body cfg lib s =
     (case periodic_derefinement cfg lib s of
        Inl c \<Rightarrow> Some (Inl c)
      | Inr s1 \<Rightarrow>
          (case spatial_adaptivity_loop cfg lib (spatial_start s1) of
             None \<Rightarrow> None
           | Some s2 \<Rightarrow> Some (Inr (advance_time cfg s2))))"

text \<open>Lines 137-247: \<^verbatim>\<open>do { ... } while (current_time < T_FINAL)\<close>. The source adds the
  time step to a \<^verbatim>\<open>double\<close> and the model to a real, so the two can differ by one in the
  number of time steps where the rounded sum falls on the other side of \<^verbatim>\<open>T_FINAL\<close> (a
  time step of 0.1 and a final time of 1.0 give the source an eleventh time step). No statement
  below is about that number.\<close>

partial_function (option) time_stepping_loop ::
  "config \<Rightarrow> ('g, 'f, 'a, 'n, 'rk) library \<Rightarrow> ('g, 'f, 'rk) transient_state \<Rightarrow>
   (crash + ('g, 'f, 'rk) transient_state) option" where
  "time_stepping_loop cfg lib s =
     (case time_step_body cfg lib s of
        None \<Rightarrow> None
      | Some (Inl c) \<Rightarrow> Some (Inl c)
      | Some (Inr s') \<Rightarrow>
          if current_time s' < T_FINAL cfg then time_stepping_loop cfg lib s' else Some (Inr s'))"

declare time_stepping_loop.simps [code]

definition transient_main ::
  "config \<Rightarrow> ('g, 'f, 'a, 'n, 'rk) library \<Rightarrow> ('g, 'f, 'rk) transient_state \<Rightarrow>
   (crash + ('g, 'f, 'rk) transient_state) option" where
  "transient_main cfg lib s = time_stepping_loop cfg lib (s\<lparr>current_time := 0, ts := 1\<rparr>)"

section \<open>Names for the values of a step\<close>

text \<open>The error estimate (in percent) that the step starting in \<open>s\<close> computes, and the
  \<^verbatim>\<open>Adapt\<close> object it hands to \<^verbatim>\<open>adapt\<close>.\<close>

definition err_est_rel_of ::
  "('g, 'f, 'a, 'n, 'rk) library \<Rightarrow> ('g, 'f, 'n) hcurl_state \<Rightarrow> real" where
  "err_est_rel_of lib s = fst (estimate_errors lib (project_coarse lib (solve_reference lib s)))"

definition err_exact_rel_of ::
  "('g, 'f, 'a, 'n, 'rk) library \<Rightarrow> ('g, 'f, 'n) hcurl_state \<Rightarrow> real" where
  "err_exact_rel_of lib s =
     fst (snd (estimate_errors lib (project_coarse lib (solve_reference lib s))))"

definition adaptivity_of ::
  "('g, 'f, 'a, 'n, 'rk) library \<Rightarrow> ('g, 'f, 'n) hcurl_state \<Rightarrow> 'a" where
  "adaptivity_of lib s =
     snd (snd (estimate_errors lib (project_coarse lib (solve_reference lib s))))"

definition err_est_rel_total_of ::
  "config \<Rightarrow> ('g, 'f, 'a, 'n, 'rk) library \<Rightarrow> ('g, 'f, 'rk) transient_state \<Rightarrow> real" where
  "err_est_rel_total_of cfg lib s = fst (estimate_error lib (rk_solve cfg lib s))"

definition adaptivity_transient_of ::
  "config \<Rightarrow> ('g, 'f, 'a, 'n, 'rk) library \<Rightarrow> ('g, 'f, 'rk) transient_state \<Rightarrow> 'a" where
  "adaptivity_transient_of cfg lib s = snd (estimate_error lib (rk_solve cfg lib s))"

text \<open>Every call of \<^verbatim>\<open>adapt\<close> that does not report convergence raises the DOF count.\<close>

definition adapt_progress :: "('g, 'f, 'a, 'n, 'rk) library \<Rightarrow> bool" where
  "adapt_progress lib =
     (\<forall>ad sp. \<not> fst (adapt lib ad sp) \<longrightarrow>
        get_num_dofs lib sp < get_num_dofs lib (snd (adapt lib ad sp)))"

text \<open>Two states of the static driver that agree on everything but the exact solution and
  the record of the exact error.\<close>

definition same_but_exact ::
  "('g, 'f, 'n) hcurl_state \<Rightarrow> ('g, 'f, 'n) hcurl_state \<Rightarrow> bool" where
  "same_but_exact s1 s2 =
     (s2\<lparr>sln_exact := sln_exact s1, graph_dof_exact := graph_dof_exact s1,
         conv_dof_exact_dat := conv_dof_exact_dat s1\<rparr> = s1)"

section \<open>A small library to run the drivers on\<close>

text \<open>
  One element is one degree of freedom; the reference space doubles the elements; a field is
  a number; the error estimate is \<open>err\<close> divided by the DOF count; \<^verbatim>\<open>adapt\<close> reports
  \<open>converged\<close> and adds \<open>added\<close> elements; with \<open>solver_fails\<close> both solvers throw and leave
  what they hold; undoing a refinement layer keeps the first half of the elements and one
  more.
\<close>

definition toy_element :: "nat element" where
  "toy_element = \<lparr>geom = 0, h_order = 2, v_order = 2\<rparr>"

definition toy_library ::
  "bool \<Rightarrow> real \<Rightarrow> bool \<Rightarrow> nat \<Rightarrow> (nat, nat, nat, complex list, nat) library" where
  "toy_library solver_fails err converged added =
     \<lparr>get_num_dofs = length,
      create_ref_space = (\<lambda>sp. sp @ sp),
      project_global = (\<lambda>sp f. f),
      new_Adapt = length,
      calc_err_est = (\<lambda>a c r. (err / real a, a)),
      adapt = (\<lambda>a sp. (converged, sp @ replicate added toy_element)),
      newton_set_space = (\<lambda>sp n. n),
      newton_solve =
        (\<lambda>n v. if solver_fails then (Some (Exception ''Newton''), n) else (None, v)),
      newton_get_sln_vector = (\<lambda>n. n),
      vector_to_solution = (\<lambda>v sp. length v),
      rk_set_space = (\<lambda>sp rk. rk),
      rk_set_time = (\<lambda>t rk. rk),
      rk_set_time_step = (\<lambda>t rk. rk),
      rk_time_step_newton =
        (\<lambda>rk prev new. if solver_fails then (Some (Exception ''Newton''), rk, new)
                        else (None, Suc rk, Suc prev)),
      mesh_copy = (\<lambda>base sp. map (\<lambda>g. \<lparr>geom = g, h_order = 0, v_order = 0\<rparr>) base),
      unrefine_all_elements = (\<lambda>sp. take (Suc (length sp div 2)) sp)\<rparr>"

definition toy_fine_element :: "nat element" where
  "toy_fine_element = \<lparr>geom = 1, h_order = 4, v_order = 3\<rparr>"

definition toy_hcurl_state :: "(nat, nat, complex list) hcurl_state" where
  "toy_hcurl_state =
     \<lparr>space = [toy_element], as = 1, done_flag = False, logged = [],
      sln = 0, ref_sln = 0, sln_exact = 7, newton = [],
      graph_dof_est = [], graph_cpu_est = [], graph_dof_exact = [], graph_cpu_exact = [],
      conv_dof_est_dat = [], conv_dof_exact_dat = []\<rparr>"

definition toy_transient_state :: "(nat, nat, nat) transient_state" where
  "toy_transient_state =
     \<lparr>space = [toy_element], as = 1, done_flag = False, logged = [],
      basemesh = [0], sln_time_prev = 0, sln_time_new = 0, runge_kutta = 0,
      ndof_coarse = 1, current_time = 0, ts = 1\<rparr>"

text \<open>The small library with an error that is \<open>err\<close> plus the distance of the two fields,
  divided by the DOF count: the exact solution shows in the exact error.\<close>

definition distance_library :: "real \<Rightarrow> (nat, nat, nat, complex list, nat) library" where
  "distance_library err =
     (toy_library False err False 1)
       \<lparr>calc_err_est := (\<lambda>a c r. ((err + \<bar>real c - real r\<bar>) / real a, a))\<rparr>"

section \<open>Facts about the loops\<close>

lemma do_while_unfold:
  "do_while body finished s =
     (if finished (body s) then Some (body s) else do_while body finished (body s))"
  by (subst do_while.simps) (simp add: Let_def)

lemma do_while_stop: "finished (body s) \<Longrightarrow> do_while body finished s = Some (body s)"
  by (subst do_while_unfold) simp

lemma do_while_continue:
  "\<not> finished (body s) \<Longrightarrow> do_while body finished s = do_while body finished (body s)"
  by (subst do_while_unfold) simp

lemma do_while_rule:
  fixes body :: "'s \<Rightarrow> 's"
  assumes run: "do_while body finished s = Some s'"
    and stop: "\<And>x. finished (body x) \<Longrightarrow> P x (body x)"
    and continue: "\<And>x y. \<not> finished (body x) \<Longrightarrow> P (body x) y \<Longrightarrow> P x y"
  shows "P s s'"
proof -
  have "b = body \<longrightarrow> f = finished \<longrightarrow> P x y" if "do_while b f x = Some y"
    for b :: "'s \<Rightarrow> 's" and f x y
  proof (rule do_while.raw_induct
      [OF _ that, where P = "\<lambda>b f x y. b = body \<longrightarrow> f = finished \<longrightarrow> P x y"])
    fix dw :: "('s \<Rightarrow> 's) \<Rightarrow> ('s \<Rightarrow> bool) \<Rightarrow> 's \<Rightarrow> 's option" and b f x y
    assume IH: "\<And>b f x y. dw b f x = Some y \<Longrightarrow> b = body \<longrightarrow> f = finished \<longrightarrow> P x y"
      and unf: "(let s' = b x in if f s' then Some s' else dw b f s') = Some y"
    show "b = body \<longrightarrow> f = finished \<longrightarrow> P x y"
    proof (intro impI)
      assume eq: "b = body" "f = finished"
      show "P x y"
      proof (cases "f (b x)")
        case True
        with unf have "y = b x" by (simp add: Let_def)
        with True eq stop show ?thesis by simp
      next
        case False
        with unf have "dw b f (b x) = Some y" by (simp add: Let_def)
        then have "b = body \<longrightarrow> f = finished \<longrightarrow> P (b x) y" by (rule IH)
        with eq have "P (body x) y" by simp
        with False eq continue show ?thesis by simp
      qed
    qed
  qed
  with run show ?thesis by simp
qed

lemma do_while_invariant:
  fixes body :: "'s \<Rightarrow> 's"
  assumes run: "do_while body finished s = Some s'" and init: "I s"
    and step: "\<And>x. I x \<Longrightarrow> I (body x)"
  shows "I s' \<and> finished s'"
proof -
  have "I s \<longrightarrow> I s' \<and> finished s'"
    by (rule do_while_rule [OF run]) (auto simp: step)
  with init show ?thesis by simp
qed

lemma do_while_terminates:
  fixes m :: "'s \<Rightarrow> nat"
  assumes "\<And>x. \<not> finished (body x) \<Longrightarrow> m (body x) < m x"
  shows "\<exists>s'. do_while body finished s = Some s'"
proof (induction "m s" arbitrary: s rule: less_induct)
  case less
  show ?case
  proof (cases "finished (body s)")
    case True
    then show ?thesis by (simp add: do_while_stop)
  next
    case False
    with assms have "m (body s) < m s" by simp
    from less [OF this] False show ?thesis by (simp add: do_while_continue)
  qed
qed

lemma do_while_diverges:
  fixes body :: "'s \<Rightarrow> 's"
  assumes init: "I s" and step: "\<And>x. I x \<Longrightarrow> I (body x) \<and> \<not> finished (body x)"
  shows "do_while body finished s = None"
proof (rule ccontr)
  assume "do_while body finished s \<noteq> None"
  then obtain y where run: "do_while body finished s = Some y" by auto
  have "\<not> I s"
    by (rule do_while_rule [OF run, where P = "\<lambda>x _. \<not> I x"]) (auto simp: step)
  with init show False by simp
qed

lemma do_while_related_Some:
  fixes b1 :: "'s \<Rightarrow> 's" and b2 :: "'t \<Rightarrow> 't"
  assumes run: "do_while b1 f1 s1 = Some r1" and rel: "R s1 s2"
    and step: "\<And>x y. R x y \<Longrightarrow> R (b1 x) (b2 y) \<and> f1 (b1 x) = f2 (b2 y)"
  shows "\<exists>r2. do_while b2 f2 s2 = Some r2 \<and> R r1 r2"
proof -
  have "\<forall>y. R s1 y \<longrightarrow> (\<exists>r2. do_while b2 f2 y = Some r2 \<and> R r1 r2)"
  proof (rule do_while_rule [OF run])
    fix x
    assume fin: "f1 (b1 x)"
    show "\<forall>y. R x y \<longrightarrow> (\<exists>r2. do_while b2 f2 y = Some r2 \<and> R (b1 x) r2)"
    proof (intro allI impI)
      fix y
      assume "R x y"
      with step fin have "R (b1 x) (b2 y)" and "f2 (b2 y)" by auto
      then show "\<exists>r2. do_while b2 f2 y = Some r2 \<and> R (b1 x) r2"
        by (simp add: do_while_stop)
    qed
  next
    fix x r
    assume nf: "\<not> f1 (b1 x)"
      and ih: "\<forall>y. R (b1 x) y \<longrightarrow> (\<exists>r2. do_while b2 f2 y = Some r2 \<and> R r r2)"
    show "\<forall>y. R x y \<longrightarrow> (\<exists>r2. do_while b2 f2 y = Some r2 \<and> R r r2)"
    proof (intro allI impI)
      fix y
      assume "R x y"
      with step nf have "R (b1 x) (b2 y)" and "\<not> f2 (b2 y)" by auto
      with ih show "\<exists>r2. do_while b2 f2 y = Some r2 \<and> R r r2"
        by (simp add: do_while_continue)
    qed
  qed
  with rel show ?thesis by simp
qed

lemma do_while_related:
  fixes b1 :: "'s \<Rightarrow> 's" and b2 :: "'t \<Rightarrow> 't"
  assumes rel: "R s1 s2"
    and step: "\<And>x y. R x y \<Longrightarrow> R (b1 x) (b2 y) \<and> f1 (b1 x) = f2 (b2 y)"
  shows "rel_option R (do_while b1 f1 s1) (do_while b2 f2 s2)"
proof (cases "do_while b1 f1 s1")
  case None
  have "do_while b2 f2 s2 = None"
  proof (rule ccontr)
    assume "do_while b2 f2 s2 \<noteq> None"
    then obtain r2 where r2: "do_while b2 f2 s2 = Some r2" by auto
    have "\<exists>r1. do_while b1 f1 s1 = Some r1 \<and> R\<inverse>\<inverse> r2 r1"
      by (rule do_while_related_Some [OF r2, where R = "R\<inverse>\<inverse>"]) (use rel step in auto)
    with None show False by simp
  qed
  with None show ?thesis by simp
next
  case (Some r1)
  from do_while_related_Some [where R = R and ?b2.0 = b2 and ?f2.0 = f2, OF Some rel step] Some
  show ?thesis by auto
qed

section \<open>Facts about the steps\<close>

lemma space_solve_reference [simp]: "space (solve_reference lib s) = space s"
  by (simp add: solve_reference_def Let_def split: prod.splits)

lemma space_project_coarse [simp]: "space (project_coarse lib s) = space s"
  by (simp add: project_coarse_def)

lemma space_add_graph_entries [simp]: "space (add_graph_entries lib e x s) = space s"
  by (simp add: add_graph_entries_def Let_def)

lemma space_decide:
  "space (decide cfg lib ad err s) =
     (if err < ERR_STOP cfg then space s else snd (adapt lib ad (space s)))"
  by (simp add: decide_def Let_def split: prod.splits)

lemma done_decide:
  "done_flag (decide cfg lib ad err s) =
     (err < ERR_STOP cfg \<or> fst (adapt lib ad (space s))
      \<or> NDOF_STOP cfg \<le> int (get_num_dofs lib (space (decide cfg lib ad err s))))"
  by (auto simp: decide_def Let_def split: prod.splits)

lemma adaptivity_step_decide:
  "adaptivity_step cfg lib s =
     (let s1 = project_coarse lib (solve_reference lib s)
      in decide cfg lib (adaptivity_of lib s) (err_est_rel_of lib s)
           (add_graph_entries lib (err_est_rel_of lib s) (fst (snd (estimate_errors lib s1)))
              (s1\<lparr>logged := logged s1 @ [InfoErrorEstimate (err_est_rel_of lib s)]\<rparr>)))"
  by (simp add: adaptivity_step_def err_est_rel_of_def adaptivity_of_def Let_def split: prod.splits)

lemma space_adaptivity_step:
  "space (adaptivity_step cfg lib s) =
     (if err_est_rel_of lib s < ERR_STOP cfg then space s
      else snd (adapt lib (adaptivity_of lib s) (space s)))"
  by (simp add: adaptivity_step_decide Let_def space_decide)

lemma done_adaptivity_step:
  "done_flag (adaptivity_step cfg lib s) =
     (err_est_rel_of lib s < ERR_STOP cfg \<or> fst (adapt lib (adaptivity_of lib s) (space s))
      \<or> NDOF_STOP cfg \<le> int (get_num_dofs lib (space (adaptivity_step cfg lib s))))"
  unfolding adaptivity_step_decide Let_def by (subst done_decide) simp

lemma space_rk_solve [simp]: "space (rk_solve cfg lib s) = space s"
  by (simp add: rk_solve_def Let_def split: prod.splits)

lemma space_report_results [simp]: "space (report_results lib e s) = space s"
  by (simp add: report_results_def)

lemma space_decide_transient:
  "space (decide_transient cfg lib ad err s) =
     (if err < ERR_STOP cfg then space s else snd (adapt lib ad (space s)))"
  by (simp add: decide_transient_def Let_def split: prod.splits)

lemma done_decide_transient:
  "done_flag (decide_transient cfg lib ad err s) =
     (err < ERR_STOP cfg \<or> fst (adapt lib ad (space s))
      \<or> NDOF_STOP cfg \<le> int (get_num_dofs lib (snd (adapt lib ad (space s)))))"
  by (auto simp: decide_transient_def Let_def split: prod.splits)

lemma spatial_adaptivity_step_decide:
  "spatial_adaptivity_step cfg lib s =
     decide_transient cfg lib (adaptivity_transient_of cfg lib s) (err_est_rel_total_of cfg lib s)
       (report_results lib (err_est_rel_total_of cfg lib s) (rk_solve cfg lib s))"
  by (simp add: spatial_adaptivity_step_def err_est_rel_total_of_def adaptivity_transient_of_def
      Let_def split: prod.splits)

lemma space_spatial_adaptivity_step:
  "space (spatial_adaptivity_step cfg lib s) =
     (if err_est_rel_total_of cfg lib s < ERR_STOP cfg then space s
      else snd (adapt lib (adaptivity_transient_of cfg lib s) (space s)))"
  by (simp add: spatial_adaptivity_step_decide space_decide_transient)

lemma done_spatial_adaptivity_step:
  "done_flag (spatial_adaptivity_step cfg lib s) =
     (err_est_rel_total_of cfg lib s < ERR_STOP cfg
      \<or> fst (adapt lib (adaptivity_transient_of cfg lib s) (space s))
      \<or> NDOF_STOP cfg
          \<le> int (get_num_dofs lib (snd (adapt lib (adaptivity_transient_of cfg lib s) (space s)))))"
  by (simp add: spatial_adaptivity_step_decide done_decide_transient)

lemma adaptivity_loop_terminates:
  assumes "adapt_progress lib"
  shows "\<exists>s'. adaptivity_loop cfg lib s = Some s'"
  unfolding adaptivity_loop_def
proof (rule do_while_terminates
    [where m = "\<lambda>x. nat (NDOF_STOP cfg - int (get_num_dofs lib (space x)))"])
  fix x :: "('a, 'b, 'd) hcurl_state"
  assume nd: "\<not> done_flag (adaptivity_step cfg lib x)"
  then have a: "\<not> err_est_rel_of lib x < ERR_STOP cfg"
    and b: "\<not> fst (adapt lib (adaptivity_of lib x) (space x))"
    and c: "int (get_num_dofs lib (space (adaptivity_step cfg lib x))) < NDOF_STOP cfg"
    by (simp_all add: done_adaptivity_step)
  from a have sp: "space (adaptivity_step cfg lib x) = snd (adapt lib (adaptivity_of lib x) (space x))"
    by (simp add: space_adaptivity_step)
  from assms b have "get_num_dofs lib (space x) < get_num_dofs lib (snd (adapt lib (adaptivity_of lib x) (space x)))"
    by (simp add: adapt_progress_def)
  with c sp show "nat (NDOF_STOP cfg - int (get_num_dofs lib (space (adaptivity_step cfg lib x))))
      < nat (NDOF_STOP cfg - int (get_num_dofs lib (space x)))"
    by simp
qed

lemma spatial_adaptivity_loop_terminates:
  assumes "adapt_progress lib"
  shows "\<exists>s'. spatial_adaptivity_loop cfg lib s = Some s'"
  unfolding spatial_adaptivity_loop_def
proof (rule do_while_terminates
    [where m = "\<lambda>x. nat (NDOF_STOP cfg - int (get_num_dofs lib (space x)))"])
  fix x :: "('a, 'b, 'e) transient_state"
  assume nd: "\<not> done_flag (spatial_adaptivity_step cfg lib x)"
  then have a: "\<not> err_est_rel_total_of cfg lib x < ERR_STOP cfg"
    and b: "\<not> fst (adapt lib (adaptivity_transient_of cfg lib x) (space x))"
    and c: "int (get_num_dofs lib (snd (adapt lib (adaptivity_transient_of cfg lib x) (space x)))) < NDOF_STOP cfg"
    by (simp_all add: done_spatial_adaptivity_step)
  from a have sp: "space (spatial_adaptivity_step cfg lib x)
      = snd (adapt lib (adaptivity_transient_of cfg lib x) (space x))"
    by (simp add: space_spatial_adaptivity_step)
  from assms b have "get_num_dofs lib (space x)
      < get_num_dofs lib (snd (adapt lib (adaptivity_transient_of cfg lib x) (space x)))"
    by (simp add: adapt_progress_def)
  with c sp show "nat (NDOF_STOP cfg - int (get_num_dofs lib (space (spatial_adaptivity_step cfg lib x))))
      < nat (NDOF_STOP cfg - int (get_num_dofs lib (space x)))"
    by simp
qed

lemma adjust_element_order_min:
  assumes "e \<in> set (adjust_element_order h_change v_change h_min v_min sp)"
  shows "h_min \<le> h_order e" and "v_min \<le> v_order e"
proof -
  from assms obtain e0 where
    "e = e0\<lparr>h_order := max h_min (h_order e0 + h_change),
              v_order := max v_min (v_order e0 + v_change)\<rparr>"
    by (auto simp: adjust_element_order_def)
  then show "h_min \<le> h_order e" and "v_min \<le> v_order e"
    by simp_all
qed

lemma smod_eq_0_iff_dvd: "l \<noteq> 0 \<Longrightarrow> (k smod l = 0) = (l dvd k)" for k l :: int
  by (auto simp: signed_modulo_int_def sgn_if dvd_eq_mod_eq_0 [symmetric] zmod_eq_0_iff)

lemma derefinement_due_dvd:
  "UNREF_FREQ cfg \<noteq> 0 \<Longrightarrow> derefinement_due cfg t = Inr (1 < t \<and> UNREF_FREQ cfg dvd t)"
  by (simp add: derefinement_due_def smod_eq_0_iff_dvd)

lemma adaptivity_loop_unfold:
  "adaptivity_loop cfg lib s =
     (if done_flag (adaptivity_step cfg lib s) then Some (adaptivity_step cfg lib s)
      else adaptivity_loop cfg lib (adaptivity_step cfg lib s))"
  unfolding adaptivity_loop_def by (rule do_while_unfold)

lemma spatial_adaptivity_loop_unfold:
  "spatial_adaptivity_loop cfg lib s =
     (if done_flag (spatial_adaptivity_step cfg lib s) then Some (spatial_adaptivity_step cfg lib s)
      else spatial_adaptivity_loop cfg lib (spatial_adaptivity_step cfg lib s))"
  unfolding spatial_adaptivity_loop_def by (rule do_while_unfold)

lemma time_step_body_crash:
  "(time_step_body cfg lib s = Some (Inl c)) = (derefinement_due cfg (ts s) = Inl c)"
  by (auto simp: time_step_body_def periodic_derefinement_def split: sum.splits option.splits)

lemma failed_newton_step:
  assumes "newton_solve lib (newton_set_space lib (ref_space_of lib (space s)) (newton s))
             (coeff_vec lib s) = (Some e, nw)"
  shows "logged (adaptivity_step cfg lib s)
           = logged s @ [PrintMsg e, InfoErrorEstimate (err_est_rel_of lib s)]"
    and "ref_sln (adaptivity_step cfg lib s)
           = vector_to_solution lib (newton_get_sln_vector lib nw) (ref_space_of lib (space s))"
    and "sln (adaptivity_step cfg lib s)
           = project_global lib (space s) (ref_sln (adaptivity_step cfg lib s))"
    and "err_est_rel_of lib s
           = fst (calc_err_est lib (new_Adapt lib (space s)) (sln (adaptivity_step cfg lib s))
                (ref_sln (adaptivity_step cfg lib s))) * 100"
    and "graph_dof_est (adaptivity_step cfg lib s)
           = graph_dof_est s @ [(get_num_dofs lib (space s), err_est_rel_of lib s)]"
  using assms
  by (simp_all add: adaptivity_step_decide err_est_rel_of_def solve_reference_def
      project_coarse_def estimate_errors_def add_graph_entries_def decide_def calc_err_exact_def
      Let_def split: prod.splits)

lemma failed_rk_step:
  assumes "rk_time_step_newton lib
             (rk_set_time_step lib (time_step cfg)
                (rk_set_time lib (current_time t)
                   (rk_set_space lib (ref_space_of lib (space t)) (runge_kutta t))))
             (sln_time_prev t) (sln_time_new t) = (Some e, rk, new)"
  shows "logged (spatial_adaptivity_step cfg lib t)
           = logged t
             @ [InfoStep (ts t) (as t), CoutWhat e,
                Info ''Projecting fine mesh solution on coarse mesh for error estimation.'',
                Info ''Calculating error estimate.'',
                InfoNdof (get_num_dofs lib (space t))
                  (get_num_dofs lib (ref_space_of lib (space t))) (err_est_rel_total_of cfg lib t)]
             @ (if err_est_rel_total_of cfg lib t < ERR_STOP cfg then []
                else [Info ''Adapting the coarse mesh.''])"
    and "sln_time_new (spatial_adaptivity_step cfg lib t) = new"
    and "err_est_rel_total_of cfg lib t
           = fst (calc_err_est lib (new_Adapt lib (space t)) (project_global lib (space t) new)
                new) * 100"
  using assms
  by (simp_all add: spatial_adaptivity_step_decide err_est_rel_total_of_def rk_solve_def
      estimate_error_def report_results_def decide_transient_def
      Let_def split: prod.splits)

lemma sln_time_prev_spatial_adaptivity_step:
  "sln_time_prev (spatial_adaptivity_step cfg lib x) = sln_time_prev x"
  by (simp add: spatial_adaptivity_step_decide decide_transient_def report_results_def
      rk_solve_def Let_def split: prod.splits)

lemma sln_time_prev_spatial_adaptivity_loop:
  assumes "spatial_adaptivity_loop cfg lib x = Some y"
  shows "sln_time_prev y = sln_time_prev x"
proof -
  from assms have "do_while (spatial_adaptivity_step cfg lib) done_flag x = Some y"
    by (simp add: spatial_adaptivity_loop_def)
  from do_while_invariant [OF this, where I = "\<lambda>z. sln_time_prev z = sln_time_prev x"]
  show ?thesis by (simp add: sln_time_prev_spatial_adaptivity_step)
qed

lemma solutions_periodic_derefinement:
  assumes "periodic_derefinement cfg lib s = Inr s1"
  shows "sln_time_prev s1 = sln_time_prev s \<and> sln_time_new s1 = sln_time_new s"
  using assms
  by (auto simp: periodic_derefinement_def global_derefinement_def Let_def
      split: sum.splits if_splits)

lemma solve_reference_exact:
  "solve_reference lib (s\<lparr>sln_exact := e, graph_dof_exact := g, conv_dof_exact_dat := c\<rparr>)
   = (solve_reference lib s)\<lparr>sln_exact := e, graph_dof_exact := g, conv_dof_exact_dat := c\<rparr>"
  by (simp add: solve_reference_def coeff_vec_def case_prod_beta Let_def)

lemma project_coarse_exact:
  "project_coarse lib (s\<lparr>sln_exact := e, graph_dof_exact := g, conv_dof_exact_dat := c\<rparr>)
   = (project_coarse lib s)\<lparr>sln_exact := e, graph_dof_exact := g, conv_dof_exact_dat := c\<rparr>"
  by (simp add: project_coarse_def)

lemma estimate_errors_exact:
  "fst (estimate_errors lib
          (s\<lparr>sln_exact := e, graph_dof_exact := g, conv_dof_exact_dat := c\<rparr>))
     = fst (estimate_errors lib s)"
  "snd (snd (estimate_errors lib
          (s\<lparr>sln_exact := e, graph_dof_exact := g, conv_dof_exact_dat := c\<rparr>)))
     = snd (snd (estimate_errors lib s))"
  by (simp_all add: estimate_errors_def calc_err_exact_def case_prod_beta Let_def)

lemma err_est_rel_of_exact:
  "err_est_rel_of lib (s\<lparr>sln_exact := e, graph_dof_exact := g, conv_dof_exact_dat := c\<rparr>)
     = err_est_rel_of lib s"
  by (simp add: err_est_rel_of_def solve_reference_exact project_coarse_exact
      estimate_errors_exact)

lemma adaptivity_of_exact:
  "adaptivity_of lib (s\<lparr>sln_exact := e, graph_dof_exact := g, conv_dof_exact_dat := c\<rparr>)
     = adaptivity_of lib s"
  by (simp add: adaptivity_of_def solve_reference_exact project_coarse_exact
      estimate_errors_exact)

lemma decide_exact:
  "decide cfg lib ad err (s\<lparr>sln_exact := e, graph_dof_exact := g, conv_dof_exact_dat := c\<rparr>)
   = (decide cfg lib ad err s)\<lparr>sln_exact := e, graph_dof_exact := g, conv_dof_exact_dat := c\<rparr>"
  by (simp add: decide_def case_prod_beta Let_def)

lemma add_graph_entries_exact:
  "add_graph_entries lib a x
     (s\<lparr>sln_exact := e, graph_dof_exact := g, conv_dof_exact_dat := c\<rparr>)
   = (add_graph_entries lib a y s)
       \<lparr>sln_exact := e, graph_dof_exact := g @ [(get_num_dofs lib (space s), x)],
        conv_dof_exact_dat := g @ [(get_num_dofs lib (space s), x)]\<rparr>"
  by (simp add: add_graph_entries_def Let_def)

lemma step_tail_exact:
  "decide cfg lib ad err
     (add_graph_entries lib err x
        ((s1\<lparr>sln_exact := e, graph_dof_exact := g, conv_dof_exact_dat := c\<rparr>)
           \<lparr>logged := logged (s1\<lparr>sln_exact := e, graph_dof_exact := g,
                                conv_dof_exact_dat := c\<rparr>) @ [m]\<rparr>))
   = (decide cfg lib ad err (add_graph_entries lib err y (s1\<lparr>logged := logged s1 @ [m]\<rparr>)))
       \<lparr>sln_exact := e, graph_dof_exact := g @ [(get_num_dofs lib (space s1), x)],
        conv_dof_exact_dat := g @ [(get_num_dofs lib (space s1), x)]\<rparr>"
  by (simp add: decide_def add_graph_entries_def case_prod_beta Let_def)

lemma adaptivity_step_exact:
  "\<exists>g'. adaptivity_step cfg lib
       (s\<lparr>sln_exact := e, graph_dof_exact := g, conv_dof_exact_dat := c\<rparr>)
     = (adaptivity_step cfg lib s)
         \<lparr>sln_exact := e, graph_dof_exact := g', conv_dof_exact_dat := g'\<rparr>"
  unfolding adaptivity_step_decide Let_def err_est_rel_of_exact adaptivity_of_exact
    solve_reference_exact project_coarse_exact
  by (subst step_tail_exact
      [where y = "fst (snd (estimate_errors lib (project_coarse lib (solve_reference lib s))))"])
    (rule exI, rule refl)

lemma same_but_exact_step:
  assumes "same_but_exact s1 s2"
  shows "same_but_exact (adaptivity_step cfg lib s1) (adaptivity_step cfg lib s2)"
proof -
  have eq: "s1 = s2\<lparr>sln_exact := sln_exact s1, graph_dof_exact := graph_dof_exact s1,
      conv_dof_exact_dat := conv_dof_exact_dat s1\<rparr>"
    by (rule assms [unfolded same_but_exact_def, symmetric])
  obtain g' where "adaptivity_step cfg lib s1
      = (adaptivity_step cfg lib s2)
          \<lparr>sln_exact := sln_exact s1, graph_dof_exact := g', conv_dof_exact_dat := g'\<rparr>"
    using adaptivity_step_exact [where cfg = cfg and lib = lib and s = s2
        and e = "sln_exact s1" and g = "graph_dof_exact s1" and c = "conv_dof_exact_dat s1"]
    unfolding eq [symmetric] by blast
  then show ?thesis by (simp add: same_but_exact_def)
qed

lemma same_but_exact_fields:
  assumes "same_but_exact s1 s2"
  shows "done_flag s1 = done_flag s2" and "space s1 = space s2" and "as s1 = as s2"
    and "graph_dof_est s1 = graph_dof_est s2" and "logged s1 = logged s2"
proof -
  have eq: "s1 = s2\<lparr>sln_exact := sln_exact s1, graph_dof_exact := graph_dof_exact s1,
      conv_dof_exact_dat := conv_dof_exact_dat s1\<rparr>"
    by (rule assms [unfolded same_but_exact_def, symmetric])
  show "done_flag s1 = done_flag s2" by (subst eq) simp
  show "space s1 = space s2" by (subst eq) simp
  show "as s1 = as s2" by (subst eq) simp
  show "graph_dof_est s1 = graph_dof_est s2" by (subst eq) simp
  show "logged s1 = logged s2" by (subst eq) simp
qed









section \<open>Running the small library\<close>

lemmas hcurl_step_defs =
  adaptivity_step_def solve_reference_def project_coarse_def estimate_errors_def
  add_graph_entries_def decide_def calc_err_exact_def coeff_vec_def ref_space_of_def Let_def

lemmas transient_step_defs =
  spatial_adaptivity_step_def rk_solve_def estimate_error_def report_results_def
  decide_transient_def ref_space_of_def Let_def

lemma toy_adapt_progress: "0 < added \<Longrightarrow> adapt_progress (toy_library f err c added)"
  by (simp add: adapt_progress_def toy_library_def)

lemma toy_err_est_rel_of:
  "err_est_rel_of (toy_library f err c added) s = err / real (length (space s)) * 100"
  by (simp add: err_est_rel_of_def estimate_errors_def calc_err_exact_def toy_library_def
      project_coarse_def solve_reference_def Let_def split: prod.splits)

lemma toy_err_est_rel_total_of:
  "err_est_rel_total_of cfg (toy_library f err c added) s = err / real (length (space s)) * 100"
  by (simp add: err_est_rel_total_of_def estimate_error_def toy_library_def rk_solve_def Let_def
      split: prod.splits)

lemma toy_adapt: "adapt (toy_library f err c added) ad sp = (c, sp @ replicate added toy_element)"
  by (simp add: toy_library_def)

lemmas derefinement_defs =
  periodic_derefinement_def derefinement_due_def global_derefinement_def derefine_def
  adjust_element_order_def set_uniform_order_def

lemma toy_two_steps:
  "spatial_adaptivity_loop (transient_config 3) (toy_library False 0.5 False 1)
     (spatial_start toy_transient_state)
   = Some (spatial_adaptivity_step (transient_config 3) (toy_library False 0.5 False 1)
       (spatial_adaptivity_step (transient_config 3) (toy_library False 0.5 False 1)
          (spatial_start toy_transient_state)))"
  apply (subst spatial_adaptivity_loop_unfold)
  apply (subst spatial_adaptivity_loop_unfold)
  apply (simp add: transient_step_defs spatial_start_def transient_config_def toy_library_def
      toy_transient_state_def)
  done

lemma toy_hcurl_run:
  "adaptivity_loop (hcurl_config 3) (toy_library False 0.5 False 1) (hcurl_start toy_hcurl_state)
   = Some (adaptivity_step (hcurl_config 3) (toy_library False 0.5 False 1)
       (adaptivity_step (hcurl_config 3) (toy_library False 0.5 False 1)
          (hcurl_start toy_hcurl_state)))"
  apply (subst adaptivity_loop_unfold)
  apply (subst adaptivity_loop_unfold)
  apply (simp add: hcurl_step_defs hcurl_start_def hcurl_config_def toy_library_def
      toy_hcurl_state_def)
  done



section \<open>The claims\<close>

text \<open>
  C1. A step that ends with the DOF count of the working discretization at or above
  \<^verbatim>\<open>NDOF_STOP\<close> is the last step of its adaptivity loop, in both drivers and whatever the
  error estimate of the step is. If every call of \<^verbatim>\<open>adapt\<close> that does not report
  convergence raises the DOF count, both adaptivity loops return, from every state and for
  every value of \<^verbatim>\<open>NDOF_STOP\<close>.
\<close>

theorem ceiling_ends_the_loop:
  "(NDOF_STOP cfg \<le> int (get_num_dofs lib (space (adaptivity_step cfg lib s)))
      \<longrightarrow> adaptivity_loop cfg lib s = Some (adaptivity_step cfg lib s))
   \<and> (NDOF_STOP cfg \<le> int (get_num_dofs lib (space (spatial_adaptivity_step cfg lib t)))
      \<longrightarrow> spatial_adaptivity_loop cfg lib t = Some (spatial_adaptivity_step cfg lib t))
   \<and> (adapt_progress lib
      \<longrightarrow> (\<exists>s'. adaptivity_loop cfg lib s = Some s')
        \<and> (\<exists>t'. spatial_adaptivity_loop cfg lib t = Some t'))"
proof (intro conjI impI)
  assume "NDOF_STOP cfg \<le> int (get_num_dofs lib (space (adaptivity_step cfg lib s)))"
  then have "done_flag (adaptivity_step cfg lib s)"
    by (subst done_adaptivity_step) simp
  then show "adaptivity_loop cfg lib s = Some (adaptivity_step cfg lib s)"
    by (simp add: adaptivity_loop_def do_while_stop)
next
  assume c: "NDOF_STOP cfg \<le> int (get_num_dofs lib (space (spatial_adaptivity_step cfg lib t)))"
  have "done_flag (spatial_adaptivity_step cfg lib t)"
  proof (cases "err_est_rel_total_of cfg lib t < ERR_STOP cfg")
    case True
    then show ?thesis by (simp add: done_spatial_adaptivity_step)
  next
    case False
    with c show ?thesis
      by (simp add: done_spatial_adaptivity_step space_spatial_adaptivity_step)
  qed
  then show "spatial_adaptivity_loop cfg lib t = Some (spatial_adaptivity_step cfg lib t)"
    by (simp add: spatial_adaptivity_loop_def do_while_stop)
next
  assume "adapt_progress lib"
  then show "\<exists>s'. adaptivity_loop cfg lib s = Some s'"
    by (rule adaptivity_loop_terminates)
next
  assume "adapt_progress lib"
  then show "\<exists>t'. spatial_adaptivity_loop cfg lib t = Some t'"
    by (rule spatial_adaptivity_loop_terminates)
qed

theorem ceiling_ends_the_loop_witness:
  "NDOF_STOP (hcurl_config 3)
     \<le> int (get_num_dofs (toy_library False 0.5 False 2)
         (space (adaptivity_step (hcurl_config 3) (toy_library False 0.5 False 2) toy_hcurl_state)))
   \<and> adaptivity_loop (hcurl_config 3) (toy_library False 0.5 False 2) toy_hcurl_state
     = Some (adaptivity_step (hcurl_config 3) (toy_library False 0.5 False 2) toy_hcurl_state)
   \<and> NDOF_STOP (hcurl_config 3)
     \<le> int (get_num_dofs (toy_library False 0.5 False 2)
         (space (spatial_adaptivity_step (hcurl_config 3) (toy_library False 0.5 False 2)
            toy_transient_state)))
   \<and> spatial_adaptivity_loop (hcurl_config 3) (toy_library False 0.5 False 2) toy_transient_state
     = Some (spatial_adaptivity_step (hcurl_config 3) (toy_library False 0.5 False 2)
         toy_transient_state)
   \<and> adapt_progress (toy_library False 0.5 False 2)
   \<and> (\<exists>s'. adaptivity_loop (hcurl_config 3) (toy_library False 0.5 False 2) toy_hcurl_state
         = Some s')
   \<and> (\<exists>t'. spatial_adaptivity_loop (hcurl_config 3) (toy_library False 0.5 False 2)
         toy_transient_state = Some t')"
proof -
  have h: "NDOF_STOP (hcurl_config 3)
     \<le> int (get_num_dofs (toy_library False 0.5 False 2)
         (space (adaptivity_step (hcurl_config 3) (toy_library False 0.5 False 2) toy_hcurl_state)))"
    by (simp add: hcurl_step_defs hcurl_config_def toy_library_def toy_hcurl_state_def)
  have t: "NDOF_STOP (hcurl_config 3)
     \<le> int (get_num_dofs (toy_library False 0.5 False 2)
         (space (spatial_adaptivity_step (hcurl_config 3) (toy_library False 0.5 False 2)
            toy_transient_state)))"
    by (simp add: transient_step_defs hcurl_config_def toy_library_def toy_transient_state_def)
  have p: "adapt_progress (toy_library False 0.5 False 2)"
    by (simp add: toy_adapt_progress)
  from h t p
    ceiling_ends_the_loop [of "hcurl_config 3" "toy_library False 0.5 False 2"
      toy_hcurl_state toy_transient_state]
  show ?thesis by blast
qed

text \<open>
  Without that condition the loop need not return. Here \<^verbatim>\<open>adapt\<close> reports no convergence and
  changes nothing, the estimate stays at 50 percent, and the one degree of freedom is far below
  the ceiling of 100000.
\<close>

theorem stagnating_adapt_counterexample:
  "adaptivity_loop (hcurl_config 100000) (toy_library False 0.5 False 0) toy_hcurl_state = None"
  unfolding adaptivity_loop_def
proof (rule do_while_diverges [where I = "\<lambda>x. space x = [toy_element]"])
  show "space toy_hcurl_state = [toy_element]"
    by (simp add: toy_hcurl_state_def)
next
  fix x :: "(nat, nat, complex list) hcurl_state"
  assume sp: "space x = [toy_element]"
  have e: "\<not> err_est_rel_of (toy_library False 0.5 False 0) x < ERR_STOP (hcurl_config 100000)"
    by (simp add: toy_err_est_rel_of sp hcurl_config_def)
  have a: "adapt (toy_library False 0.5 False 0)
      (adaptivity_of (toy_library False 0.5 False 0) x) (space x) = (False, [toy_element])"
    by (simp add: toy_library_def sp)
  from e a have s: "space (adaptivity_step (hcurl_config 100000) (toy_library False 0.5 False 0) x)
      = [toy_element]"
    by (simp add: space_adaptivity_step)
  have "\<not> done_flag (adaptivity_step (hcurl_config 100000) (toy_library False 0.5 False 0) x)"
    apply (subst done_adaptivity_step)
    using e a s apply (simp)
    apply (simp add: toy_library_def hcurl_config_def)
    done
  with s show "space (adaptivity_step (hcurl_config 100000) (toy_library False 0.5 False 0) x)
      = [toy_element]
    \<and> \<not> done_flag (adaptivity_step (hcurl_config 100000) (toy_library False 0.5 False 0) x)"
    by simp
qed

text \<open>
  C6. When the estimate of a step is at or above \<^verbatim>\<open>ERR_STOP\<close> and \<^verbatim>\<open>adapt\<close> returns
  \<open>true\<close> (no element qualifies), the loop returns the state at the end of that very step: no
  further step runs, so no further reference space is built. This holds in both drivers.
\<close>

theorem no_candidate_ends_the_loop:
  "(\<not> err_est_rel_of lib s < ERR_STOP cfg \<and> fst (adapt lib (adaptivity_of lib s) (space s))
      \<longrightarrow> adaptivity_loop cfg lib s = Some (adaptivity_step cfg lib s))
   \<and> (\<not> err_est_rel_total_of cfg lib t < ERR_STOP cfg
        \<and> fst (adapt lib (adaptivity_transient_of cfg lib t) (space t))
      \<longrightarrow> spatial_adaptivity_loop cfg lib t = Some (spatial_adaptivity_step cfg lib t))"
proof (intro conjI impI)
  assume "\<not> err_est_rel_of lib s < ERR_STOP cfg \<and> fst (adapt lib (adaptivity_of lib s) (space s))"
  then have "done_flag (adaptivity_step cfg lib s)"
    by (subst done_adaptivity_step) simp
  then show "adaptivity_loop cfg lib s = Some (adaptivity_step cfg lib s)"
    by (simp add: adaptivity_loop_def do_while_stop)
next
  assume "\<not> err_est_rel_total_of cfg lib t < ERR_STOP cfg
    \<and> fst (adapt lib (adaptivity_transient_of cfg lib t) (space t))"
  then have "done_flag (spatial_adaptivity_step cfg lib t)"
    by (simp add: done_spatial_adaptivity_step)
  then show "spatial_adaptivity_loop cfg lib t = Some (spatial_adaptivity_step cfg lib t)"
    by (simp add: spatial_adaptivity_loop_def do_while_stop)
qed

theorem no_candidate_ends_the_loop_witness:
  "\<not> err_est_rel_of (toy_library False 0.5 True 0) toy_hcurl_state < ERR_STOP (hcurl_config 100000)
   \<and> fst (adapt (toy_library False 0.5 True 0)
        (adaptivity_of (toy_library False 0.5 True 0) toy_hcurl_state) (space toy_hcurl_state))
   \<and> adaptivity_loop (hcurl_config 100000) (toy_library False 0.5 True 0) toy_hcurl_state
     = Some (adaptivity_step (hcurl_config 100000) (toy_library False 0.5 True 0) toy_hcurl_state)
   \<and> \<not> err_est_rel_total_of (transient_config 100000) (toy_library False 0.5 True 0)
         toy_transient_state < ERR_STOP (transient_config 100000)
   \<and> fst (adapt (toy_library False 0.5 True 0)
        (adaptivity_transient_of (transient_config 100000) (toy_library False 0.5 True 0)
           toy_transient_state) (space toy_transient_state))
   \<and> spatial_adaptivity_loop (transient_config 100000) (toy_library False 0.5 True 0)
       toy_transient_state
     = Some (spatial_adaptivity_step (transient_config 100000) (toy_library False 0.5 True 0)
         toy_transient_state)"
proof -
  have h: "\<not> err_est_rel_of (toy_library False 0.5 True 0) toy_hcurl_state
      < ERR_STOP (hcurl_config 100000)"
    by (simp add: toy_err_est_rel_of toy_hcurl_state_def hcurl_config_def)
  have t: "\<not> err_est_rel_total_of (transient_config 100000) (toy_library False 0.5 True 0)
      toy_transient_state < ERR_STOP (transient_config 100000)"
    by (simp add: toy_err_est_rel_total_of toy_transient_state_def transient_config_def)
  from h t
    no_candidate_ends_the_loop [of "toy_library False 0.5 True 0" toy_hcurl_state
      "hcurl_config 100000"]
    no_candidate_ends_the_loop [of "toy_library False 0.5 True 0" _ "transient_config 100000"
      toy_transient_state]
  show ?thesis by (simp add: toy_adapt)
qed

text \<open>
  C10. In the static driver the vector handed to \<^verbatim>\<open>newton.solve\<close> in a step is the zero
  vector whose length is the DOF count of the step's reference space. It does not depend on the
  reference solution, the coarse solution or the solver state that the previous step left, and
  it is the one solve of the step.
\<close>

theorem newton_starts_from_zero:
  "coeff_vec lib s = replicate (get_num_dofs lib (create_ref_space lib (space s))) 0
   \<and> coeff_vec lib (s\<lparr>ref_sln := r, sln := c, newton := n\<rparr>) = coeff_vec lib s
   \<and> newton (solve_reference lib s)
     = snd (newton_solve lib (newton_set_space lib (create_ref_space lib (space s)) (newton s))
         (replicate (get_num_dofs lib (create_ref_space lib (space s))) 0))
   \<and> newton (adaptivity_step cfg lib s) = newton (solve_reference lib s)"
  by (simp add: coeff_vec_def ref_space_of_def solve_reference_def adaptivity_step_decide
      decide_def add_graph_entries_def project_coarse_def Let_def split: prod.splits)

text \<open>
  C4 (as the code has it). With \<^verbatim>\<open>UNREF_FREQ\<close> not zero, the derefinement runs before
  the adaptivity loop of a time step exactly when the index of the step is greater than 1 and a
  multiple of \<^verbatim>\<open>UNREF_FREQ\<close>: the adaptivity loop of that time step starts from the
  derefined state, and from the unchanged state otherwise. With the default
  \<^verbatim>\<open>UNREF_FREQ = 1\<close> that is every time step but the first.
\<close>

theorem derefinement_after_first_step:
  "(UNREF_FREQ cfg \<noteq> 0 \<longrightarrow>
      periodic_derefinement cfg lib s
        = Inr (if 1 < ts s \<and> UNREF_FREQ cfg dvd ts s then global_derefinement cfg lib s else s)
      \<and> time_step_body cfg lib s
        = map_option (\<lambda>y. Inr (advance_time cfg y))
            (spatial_adaptivity_loop cfg lib
               (spatial_start (if 1 < ts s \<and> UNREF_FREQ cfg dvd ts s
                               then global_derefinement cfg lib s else s))))
   \<and> periodic_derefinement (transient_config n) lib s
     = Inr (if 1 < ts s then global_derefinement (transient_config n) lib s else s)"
proof (intro conjI impI)
  assume nz: "UNREF_FREQ cfg \<noteq> 0"
  then show p: "periodic_derefinement cfg lib s
      = Inr (if 1 < ts s \<and> UNREF_FREQ cfg dvd ts s then global_derefinement cfg lib s else s)"
    by (simp add: periodic_derefinement_def derefinement_due_dvd)
  show "time_step_body cfg lib s
      = map_option (\<lambda>y. Inr (advance_time cfg y))
          (spatial_adaptivity_loop cfg lib
             (spatial_start (if 1 < ts s \<and> UNREF_FREQ cfg dvd ts s
                             then global_derefinement cfg lib s else s)))"
    unfolding time_step_body_def p by (simp split: option.splits)
next
  have "UNREF_FREQ (transient_config n) = 1"
    by (simp add: transient_config_def)
  then show "periodic_derefinement (transient_config n) lib s
      = Inr (if 1 < ts s then global_derefinement (transient_config n) lib s else s)"
    by (simp add: periodic_derefinement_def derefinement_due_dvd)
qed

theorem derefinement_after_first_step_witness:
  "UNREF_FREQ (transient_config 100000) \<noteq> 0
   \<and> periodic_derefinement (transient_config 100000) (toy_library False 0.5 False 1)
       (toy_transient_state\<lparr>ts := 2\<rparr>)
     = Inr (global_derefinement (transient_config 100000) (toy_library False 0.5 False 1)
         (toy_transient_state\<lparr>ts := 2\<rparr>))
   \<and> time_step_body (transient_config 100000) (toy_library False 0.5 False 1)
       (toy_transient_state\<lparr>ts := 2\<rparr>)
     = map_option (\<lambda>y. Inr (advance_time (transient_config 100000) y))
         (spatial_adaptivity_loop (transient_config 100000) (toy_library False 0.5 False 1)
            (spatial_start (global_derefinement (transient_config 100000)
               (toy_library False 0.5 False 1) (toy_transient_state\<lparr>ts := 2\<rparr>))))"
proof -
  have nz: "UNREF_FREQ (transient_config 100000) \<noteq> 0"
    by (simp add: transient_config_def)
  have d: "1 < ts (toy_transient_state\<lparr>ts := 2\<rparr>)
      \<and> UNREF_FREQ (transient_config 100000) dvd ts (toy_transient_state\<lparr>ts := 2\<rparr>)"
    by (simp add: transient_config_def)
  from nz d
    derefinement_after_first_step [of "transient_config 100000" "toy_library False 0.5 False 1"
      "toy_transient_state\<lparr>ts := 2\<rparr>" 100000]
  show ?thesis by simp
qed

text \<open>
  The first time step has index 1, which is a multiple of the default frequency 1, and the
  guard \<^verbatim>\<open>ts > 1\<close> keeps the derefinement from running: the state the adaptivity loop
  starts from is the one the time step started from, not the derefined one.
\<close>

theorem first_time_step_counterexample:
  "ts toy_transient_state = 1
   \<and> ts toy_transient_state smod UNREF_FREQ (transient_config 100000) = 0
   \<and> periodic_derefinement (transient_config 100000) (toy_library False 0.5 False 1)
       toy_transient_state = Inr toy_transient_state
   \<and> global_derefinement (transient_config 100000) (toy_library False 0.5 False 1)
       toy_transient_state \<noteq> toy_transient_state"
  by (simp add: derefinement_defs transient_config_def toy_transient_state_def
      signed_modulo_int_def Let_def)

text \<open>
  C5. With \<^verbatim>\<open>UNREF_METHOD = 3\<close> every element of the derefined discretization has its
  degree, in both directions, at or above \<^verbatim>\<open>P_INIT\<close>, whatever layer of refinement the
  library undoes and whatever the degrees were before.
\<close>

theorem policy_3_keeps_base_degree:
  "UNREF_METHOD cfg = 3 \<longrightarrow>
     (\<forall>e \<in> set (derefine cfg lib base sp). P_INIT cfg \<le> h_order e \<and> P_INIT cfg \<le> v_order e)
     \<and> (\<forall>e \<in> set (space (global_derefinement cfg lib s)).
          P_INIT cfg \<le> h_order e \<and> P_INIT cfg \<le> v_order e)"
proof (intro impI conjI ballI)
  assume m: "UNREF_METHOD cfg = 3"
  have d: "derefine cfg lib b x
      = adjust_element_order (- 1) (- 1) (P_INIT cfg) (P_INIT cfg) (unrefine_all_elements lib x)"
    for b x
    using m by (simp add: derefine_def)
  {
    fix e
    assume "e \<in> set (derefine cfg lib base sp)"
    then have "e \<in> set (adjust_element_order (- 1) (- 1) (P_INIT cfg) (P_INIT cfg)
        (unrefine_all_elements lib sp))"
      by (simp only: d)
    then show "P_INIT cfg \<le> h_order e" and "P_INIT cfg \<le> v_order e"
      by (simp_all add: adjust_element_order_min)
  next
    fix e
    assume "e \<in> set (space (global_derefinement cfg lib s))"
    then have "e \<in> set (adjust_element_order (- 1) (- 1) (P_INIT cfg) (P_INIT cfg)
        (unrefine_all_elements lib (space s)))"
      by (simp add: global_derefinement_def Let_def d)
    then show "P_INIT cfg \<le> h_order e" and "P_INIT cfg \<le> v_order e"
      by (simp_all add: adjust_element_order_min)
  }
qed

theorem policy_3_keeps_base_degree_witness:
  "UNREF_METHOD (transient_config 100000) = 3
   \<and> derefine (transient_config 100000) (toy_library False 0.5 False 1) [0]
       [toy_element, toy_fine_element]
     = [toy_element, \<lparr>geom = 1, h_order = 3, v_order = 2\<rparr>]
   \<and> P_INIT (transient_config 100000) \<le> h_order toy_element
   \<and> P_INIT (transient_config 100000) \<le> v_order toy_element
   \<and> P_INIT (transient_config 100000) \<le> h_order \<lparr>geom = 1::nat, h_order = 3, v_order = 2\<rparr>
   \<and> P_INIT (transient_config 100000) \<le> v_order \<lparr>geom = 1::nat, h_order = 3, v_order = 2\<rparr>"
proof -
  have m: "UNREF_METHOD (transient_config 100000) = 3"
    by (simp add: transient_config_def)
  have d: "derefine (transient_config 100000) (toy_library False 0.5 False 1) [0]
       [toy_element, toy_fine_element]
     = [toy_element, \<lparr>geom = 1, h_order = 3, v_order = 2\<rparr>]"
    by (simp add: derefine_def adjust_element_order_def transient_config_def toy_library_def
        toy_element_def toy_fine_element_def)
  from m d
    policy_3_keeps_base_degree [of "transient_config 100000" "toy_library False 0.5 False 1"
      "[0]" "[toy_element, toy_fine_element]" toy_transient_state]
  show ?thesis by simp
qed

text \<open>
  C3. When the solve of a step throws, the handler prints the exception and the step goes on:
  the reference solution is made from the vector the Newton solver holds after the failed call
  (static driver) or is what the Runge-Kutta stepper left in \<^verbatim>\<open>sln_time_new\<close> (transient
  driver); the projection, the error estimate, the record of the step and the decision are
  those of any other step, and the loop goes on from the decision. No result of a time step is
  a crash but the division by a zero \<^verbatim>\<open>UNREF_FREQ\<close>.
\<close>

theorem solver_failure_is_absorbed:
  "(newton_solve lib (newton_set_space lib (ref_space_of lib (space s)) (newton s))
       (coeff_vec lib s) = (Some e, nw)
     \<longrightarrow> logged (adaptivity_step cfg lib s)
           = logged s @ [PrintMsg e, InfoErrorEstimate (err_est_rel_of lib s)]
       \<and> ref_sln (adaptivity_step cfg lib s)
           = vector_to_solution lib (newton_get_sln_vector lib nw) (ref_space_of lib (space s))
       \<and> sln (adaptivity_step cfg lib s)
           = project_global lib (space s) (ref_sln (adaptivity_step cfg lib s))
       \<and> err_est_rel_of lib s
           = fst (calc_err_est lib (new_Adapt lib (space s)) (sln (adaptivity_step cfg lib s))
                (ref_sln (adaptivity_step cfg lib s))) * 100
       \<and> graph_dof_est (adaptivity_step cfg lib s)
           = graph_dof_est s @ [(get_num_dofs lib (space s), err_est_rel_of lib s)]
       \<and> done_flag (adaptivity_step cfg lib s)
           = (err_est_rel_of lib s < ERR_STOP cfg
              \<or> fst (adapt lib (adaptivity_of lib s) (space s))
              \<or> NDOF_STOP cfg \<le> int (get_num_dofs lib (space (adaptivity_step cfg lib s))))
       \<and> adaptivity_loop cfg lib s
           = (if done_flag (adaptivity_step cfg lib s) then Some (adaptivity_step cfg lib s)
              else adaptivity_loop cfg lib (adaptivity_step cfg lib s)))
   \<and> (rk_time_step_newton lib
         (rk_set_time_step lib (time_step cfg)
            (rk_set_time lib (current_time t)
               (rk_set_space lib (ref_space_of lib (space t)) (runge_kutta t))))
         (sln_time_prev t) (sln_time_new t) = (Some e, rk, new)
     \<longrightarrow> logged (spatial_adaptivity_step cfg lib t)
           = logged t
             @ [InfoStep (ts t) (as t), CoutWhat e,
                Info ''Projecting fine mesh solution on coarse mesh for error estimation.'',
                Info ''Calculating error estimate.'',
                InfoNdof (get_num_dofs lib (space t))
                  (get_num_dofs lib (ref_space_of lib (space t))) (err_est_rel_total_of cfg lib t)]
             @ (if err_est_rel_total_of cfg lib t < ERR_STOP cfg then []
                else [Info ''Adapting the coarse mesh.''])
       \<and> sln_time_new (spatial_adaptivity_step cfg lib t) = new
       \<and> err_est_rel_total_of cfg lib t
           = fst (calc_err_est lib (new_Adapt lib (space t)) (project_global lib (space t) new)
                new) * 100
       \<and> done_flag (spatial_adaptivity_step cfg lib t)
           = (err_est_rel_total_of cfg lib t < ERR_STOP cfg
              \<or> fst (adapt lib (adaptivity_transient_of cfg lib t) (space t))
              \<or> NDOF_STOP cfg
                  \<le> int (get_num_dofs lib
                        (snd (adapt lib (adaptivity_transient_of cfg lib t) (space t)))))
       \<and> spatial_adaptivity_loop cfg lib t
           = (if done_flag (spatial_adaptivity_step cfg lib t)
              then Some (spatial_adaptivity_step cfg lib t)
              else spatial_adaptivity_loop cfg lib (spatial_adaptivity_step cfg lib t)))
   \<and> (time_step_body cfg lib u = Some (Inl c)) = (derefinement_due cfg (ts u) = Inl c)"
proof (intro conjI impI)
  assume h: "newton_solve lib (newton_set_space lib (ref_space_of lib (space s)) (newton s))
      (coeff_vec lib s) = (Some e, nw)"
  show "logged (adaptivity_step cfg lib s)
      = logged s @ [PrintMsg e, InfoErrorEstimate (err_est_rel_of lib s)]"
    by (rule failed_newton_step(1) [OF h])
  show "ref_sln (adaptivity_step cfg lib s)
      = vector_to_solution lib (newton_get_sln_vector lib nw) (ref_space_of lib (space s))"
    by (rule failed_newton_step(2) [OF h])
  show "sln (adaptivity_step cfg lib s)
      = project_global lib (space s) (ref_sln (adaptivity_step cfg lib s))"
    by (rule failed_newton_step(3) [OF h])
  show "err_est_rel_of lib s
      = fst (calc_err_est lib (new_Adapt lib (space s)) (sln (adaptivity_step cfg lib s))
           (ref_sln (adaptivity_step cfg lib s))) * 100"
    by (rule failed_newton_step(4) [OF h])
  show "graph_dof_est (adaptivity_step cfg lib s)
      = graph_dof_est s @ [(get_num_dofs lib (space s), err_est_rel_of lib s)]"
    by (rule failed_newton_step(5) [OF h])
next
  show "done_flag (adaptivity_step cfg lib s)
      = (err_est_rel_of lib s < ERR_STOP cfg
         \<or> fst (adapt lib (adaptivity_of lib s) (space s))
         \<or> NDOF_STOP cfg \<le> int (get_num_dofs lib (space (adaptivity_step cfg lib s))))"
    by (rule done_adaptivity_step)
  show "adaptivity_loop cfg lib s
      = (if done_flag (adaptivity_step cfg lib s) then Some (adaptivity_step cfg lib s)
         else adaptivity_loop cfg lib (adaptivity_step cfg lib s))"
    by (rule adaptivity_loop_unfold)
next
  assume h: "rk_time_step_newton lib
      (rk_set_time_step lib (time_step cfg)
         (rk_set_time lib (current_time t)
            (rk_set_space lib (ref_space_of lib (space t)) (runge_kutta t))))
      (sln_time_prev t) (sln_time_new t) = (Some e, rk, new)"
  show "logged (spatial_adaptivity_step cfg lib t)
      = logged t
        @ [InfoStep (ts t) (as t), CoutWhat e,
           Info ''Projecting fine mesh solution on coarse mesh for error estimation.'',
           Info ''Calculating error estimate.'',
           InfoNdof (get_num_dofs lib (space t))
             (get_num_dofs lib (ref_space_of lib (space t))) (err_est_rel_total_of cfg lib t)]
        @ (if err_est_rel_total_of cfg lib t < ERR_STOP cfg then []
           else [Info ''Adapting the coarse mesh.''])"
    by (rule failed_rk_step(1) [OF h])
  show "sln_time_new (spatial_adaptivity_step cfg lib t) = new"
    by (rule failed_rk_step(2) [OF h])
  show "err_est_rel_total_of cfg lib t
      = fst (calc_err_est lib (new_Adapt lib (space t)) (project_global lib (space t) new)
           new) * 100"
    by (rule failed_rk_step(3) [OF h])
next
  show "done_flag (spatial_adaptivity_step cfg lib t)
      = (err_est_rel_total_of cfg lib t < ERR_STOP cfg
         \<or> fst (adapt lib (adaptivity_transient_of cfg lib t) (space t))
         \<or> NDOF_STOP cfg
             \<le> int (get_num_dofs lib
                   (snd (adapt lib (adaptivity_transient_of cfg lib t) (space t)))))"
    by (rule done_spatial_adaptivity_step)
  show "spatial_adaptivity_loop cfg lib t
      = (if done_flag (spatial_adaptivity_step cfg lib t)
         then Some (spatial_adaptivity_step cfg lib t)
         else spatial_adaptivity_loop cfg lib (spatial_adaptivity_step cfg lib t))"
    by (rule spatial_adaptivity_loop_unfold)
next
  show "(time_step_body cfg lib u = Some (Inl c)) = (derefinement_due cfg (ts u) = Inl c)"
    by (rule time_step_body_crash)
qed

theorem solver_failure_is_absorbed_witness:
  "newton_solve (toy_library True 0.5 False 1)
      (newton_set_space (toy_library True 0.5 False 1)
         (ref_space_of (toy_library True 0.5 False 1) (space toy_hcurl_state))
         (newton toy_hcurl_state))
      (coeff_vec (toy_library True 0.5 False 1) toy_hcurl_state)
     = (Some (Exception ''Newton''), [])
   \<and> logged (adaptivity_step (hcurl_config 100000) (toy_library True 0.5 False 1) toy_hcurl_state)
     = [PrintMsg (Exception ''Newton''), InfoErrorEstimate 50]
   \<and> ref_sln (adaptivity_step (hcurl_config 100000) (toy_library True 0.5 False 1)
        toy_hcurl_state)
     = vector_to_solution (toy_library True 0.5 False 1)
         (newton_get_sln_vector (toy_library True 0.5 False 1) [])
         (ref_space_of (toy_library True 0.5 False 1) (space toy_hcurl_state))
   \<and> rk_time_step_newton (toy_library True 0.5 False 1)
        (rk_set_time_step (toy_library True 0.5 False 1) (time_step (transient_config 100000))
           (rk_set_time (toy_library True 0.5 False 1) (current_time toy_transient_state)
              (rk_set_space (toy_library True 0.5 False 1)
                 (ref_space_of (toy_library True 0.5 False 1) (space toy_transient_state))
                 (runge_kutta toy_transient_state))))
        (sln_time_prev toy_transient_state) (sln_time_new toy_transient_state)
     = (Some (Exception ''Newton''), 0, 0)
   \<and> logged (spatial_adaptivity_step (transient_config 100000) (toy_library True 0.5 False 1)
        toy_transient_state)
     = [InfoStep 1 1, CoutWhat (Exception ''Newton''),
        Info ''Projecting fine mesh solution on coarse mesh for error estimation.'',
        Info ''Calculating error estimate.'', InfoNdof 1 2 50,
        Info ''Adapting the coarse mesh.'']
   \<and> sln_time_new (spatial_adaptivity_step (transient_config 100000)
        (toy_library True 0.5 False 1) toy_transient_state) = 0"
proof -
  have h: "newton_solve (toy_library True 0.5 False 1)
      (newton_set_space (toy_library True 0.5 False 1)
         (ref_space_of (toy_library True 0.5 False 1) (space toy_hcurl_state))
         (newton toy_hcurl_state))
      (coeff_vec (toy_library True 0.5 False 1) toy_hcurl_state)
     = (Some (Exception ''Newton''), [])"
    by (simp add: toy_library_def toy_hcurl_state_def)
  have t: "rk_time_step_newton (toy_library True 0.5 False 1)
        (rk_set_time_step (toy_library True 0.5 False 1) (time_step (transient_config 100000))
           (rk_set_time (toy_library True 0.5 False 1) (current_time toy_transient_state)
              (rk_set_space (toy_library True 0.5 False 1)
                 (ref_space_of (toy_library True 0.5 False 1) (space toy_transient_state))
                 (runge_kutta toy_transient_state))))
        (sln_time_prev toy_transient_state) (sln_time_new toy_transient_state)
     = (Some (Exception ''Newton''), 0, 0)"
    by (simp add: toy_library_def toy_transient_state_def)
  have e1: "err_est_rel_of (toy_library True 0.5 False 1) toy_hcurl_state = 50"
    by (simp add: toy_err_est_rel_of toy_hcurl_state_def)
  have e2: "err_est_rel_total_of (transient_config 100000) (toy_library True 0.5 False 1)
      toy_transient_state = 50"
    by (simp add: toy_err_est_rel_total_of toy_transient_state_def)
  have v: "logged toy_hcurl_state = [] \<and> logged toy_transient_state = []
      \<and> ts toy_transient_state = 1 \<and> as toy_transient_state = 1
      \<and> get_num_dofs (toy_library True 0.5 False 1) (space toy_transient_state) = 1
      \<and> get_num_dofs (toy_library True 0.5 False 1)
          (ref_space_of (toy_library True 0.5 False 1) (space toy_transient_state)) = 2
      \<and> ERR_STOP (transient_config 100000) = 1"
    by (simp add: toy_library_def toy_hcurl_state_def toy_transient_state_def ref_space_of_def
        transient_config_def)
  note a = solver_failure_is_absorbed [of "toy_library True 0.5 False 1" toy_hcurl_state
      "Exception ''Newton''" "[]" "hcurl_config 100000", THEN conjunct1, rule_format, OF h]
  note b = solver_failure_is_absorbed [of "toy_library True 0.5 False 1" toy_hcurl_state
      "Exception ''Newton''" "[]" "transient_config 100000" toy_transient_state 0 0,
      THEN conjunct2, THEN conjunct1, rule_format, OF t]
  from h t e1 e2 v a [THEN conjunct1] a [THEN conjunct2, THEN conjunct1]
    b [THEN conjunct1] b [THEN conjunct2, THEN conjunct1]
  show ?thesis by simp
qed

text \<open>
  C9. No step of the spatial adaptivity loop changes \<^verbatim>\<open>sln_time_prev\<close>, so the loop of a
  time step returns it as the time step found it (the derefinement does not touch it either).
  A time step that ends has run the loop to its end and then, once, copied the new solution of
  the loop's last step into \<^verbatim>\<open>sln_time_prev\<close>; the two solution fields of the driver then
  hold that one solution.
\<close>

theorem previous_solution_is_replaced_after_the_loop:
  "sln_time_prev (spatial_adaptivity_step cfg lib x) = sln_time_prev x
   \<and> (spatial_adaptivity_loop cfg lib x = Some y \<longrightarrow> sln_time_prev y = sln_time_prev x)
   \<and> (time_step_body cfg lib s = Some (Inr s') \<longrightarrow>
        (\<exists>s1 s2. periodic_derefinement cfg lib s = Inr s1
           \<and> spatial_adaptivity_loop cfg lib (spatial_start s1) = Some s2
           \<and> sln_time_prev s1 = sln_time_prev s
           \<and> sln_time_prev s2 = sln_time_prev s
           \<and> s' = advance_time cfg s2
           \<and> sln_time_prev s' = sln_time_new s2
           \<and> sln_time_new s' = sln_time_new s2))"
proof (intro conjI impI)
  show "sln_time_prev (spatial_adaptivity_step cfg lib x) = sln_time_prev x"
    by (rule sln_time_prev_spatial_adaptivity_step)
next
  assume "spatial_adaptivity_loop cfg lib x = Some y"
  then show "sln_time_prev y = sln_time_prev x"
    by (rule sln_time_prev_spatial_adaptivity_loop)
next
  assume run: "time_step_body cfg lib s = Some (Inr s')"
  then obtain s1 s2 where d: "periodic_derefinement cfg lib s = Inr s1"
    and l: "spatial_adaptivity_loop cfg lib (spatial_start s1) = Some s2"
    and a: "s' = advance_time cfg s2"
    by (auto simp: time_step_body_def split: sum.splits option.splits)
  from d have p: "sln_time_prev s1 = sln_time_prev s"
    by (simp add: solutions_periodic_derefinement)
  from l have "sln_time_prev s2 = sln_time_prev (spatial_start s1)"
    by (rule sln_time_prev_spatial_adaptivity_loop)
  with p have q: "sln_time_prev s2 = sln_time_prev s"
    by (simp add: spatial_start_def)
  from a have "sln_time_prev s' = sln_time_new s2 \<and> sln_time_new s' = sln_time_new s2"
    by (simp add: advance_time_def)
  with d l a p q show "\<exists>s1 s2. periodic_derefinement cfg lib s = Inr s1
      \<and> spatial_adaptivity_loop cfg lib (spatial_start s1) = Some s2
      \<and> sln_time_prev s1 = sln_time_prev s
      \<and> sln_time_prev s2 = sln_time_prev s
      \<and> s' = advance_time cfg s2
      \<and> sln_time_prev s' = sln_time_new s2
      \<and> sln_time_new s' = sln_time_new s2"
    by blast
qed

theorem previous_solution_is_replaced_after_the_loop_witness:
  "time_step_body (transient_config 3) (toy_library False 0.5 False 1) toy_transient_state
     = Some (Inr (advance_time (transient_config 3)
         (spatial_adaptivity_step (transient_config 3) (toy_library False 0.5 False 1)
            (spatial_adaptivity_step (transient_config 3) (toy_library False 0.5 False 1)
               (spatial_start toy_transient_state)))))
   \<and> (\<exists>s1 s2. periodic_derefinement (transient_config 3) (toy_library False 0.5 False 1)
          toy_transient_state = Inr s1
        \<and> spatial_adaptivity_loop (transient_config 3) (toy_library False 0.5 False 1)
            (spatial_start s1) = Some s2
        \<and> sln_time_prev s1 = sln_time_prev toy_transient_state
        \<and> sln_time_prev s2 = sln_time_prev toy_transient_state
        \<and> advance_time (transient_config 3)
            (spatial_adaptivity_step (transient_config 3) (toy_library False 0.5 False 1)
               (spatial_adaptivity_step (transient_config 3) (toy_library False 0.5 False 1)
                  (spatial_start toy_transient_state)))
          = advance_time (transient_config 3) s2
        \<and> sln_time_prev (advance_time (transient_config 3)
            (spatial_adaptivity_step (transient_config 3) (toy_library False 0.5 False 1)
               (spatial_adaptivity_step (transient_config 3) (toy_library False 0.5 False 1)
                  (spatial_start toy_transient_state))))
          = sln_time_new s2
        \<and> sln_time_new (advance_time (transient_config 3)
            (spatial_adaptivity_step (transient_config 3) (toy_library False 0.5 False 1)
               (spatial_adaptivity_step (transient_config 3) (toy_library False 0.5 False 1)
                  (spatial_start toy_transient_state))))
          = sln_time_new s2)"
proof -
  have d: "periodic_derefinement (transient_config 3) (toy_library False 0.5 False 1)
      toy_transient_state = Inr toy_transient_state"
    by (simp add: periodic_derefinement_def derefinement_due_def toy_transient_state_def)
  have r: "time_step_body (transient_config 3) (toy_library False 0.5 False 1) toy_transient_state
     = Some (Inr (advance_time (transient_config 3)
         (spatial_adaptivity_step (transient_config 3) (toy_library False 0.5 False 1)
            (spatial_adaptivity_step (transient_config 3) (toy_library False 0.5 False 1)
               (spatial_start toy_transient_state)))))"
    using d toy_two_steps by (simp add: time_step_body_def)
  from r previous_solution_is_replaced_after_the_loop
    [THEN conjunct2, THEN conjunct2, rule_format, OF r]
  show ?thesis by simp
qed




text \<open>
  C7. With \<^verbatim>\<open>calc_err_exact\<close> as the spec has it, two states of the static driver that
  differ only in the exact solution (and in the record of the exact error) are taken by a step
  to two states that again differ only there: the same flag, the same refined discretization,
  the same counter, the same record of the estimate. So the two loops run the same steps, and
  either both return, in states that differ only there, or neither returns.
\<close>

theorem exact_solution_does_not_steer_the_loop:
  "same_but_exact s1 s2 \<longrightarrow>
     same_but_exact (adaptivity_step cfg lib s1) (adaptivity_step cfg lib s2)
     \<and> done_flag (adaptivity_step cfg lib s1) = done_flag (adaptivity_step cfg lib s2)
     \<and> space (adaptivity_step cfg lib s1) = space (adaptivity_step cfg lib s2)
     \<and> rel_option same_but_exact (adaptivity_loop cfg lib s1) (adaptivity_loop cfg lib s2)"
proof (intro impI conjI)
  assume r: "same_but_exact s1 s2"
  then show st: "same_but_exact (adaptivity_step cfg lib s1) (adaptivity_step cfg lib s2)"
    by (rule same_but_exact_step)
  from st show "done_flag (adaptivity_step cfg lib s1) = done_flag (adaptivity_step cfg lib s2)"
    by (rule same_but_exact_fields(1))
  from st show "space (adaptivity_step cfg lib s1) = space (adaptivity_step cfg lib s2)"
    by (rule same_but_exact_fields(2))
  show "rel_option same_but_exact (adaptivity_loop cfg lib s1) (adaptivity_loop cfg lib s2)"
    unfolding adaptivity_loop_def
  proof (rule do_while_related [where R = same_but_exact, OF r])
    fix x y :: "('a, 'b, 'c) hcurl_state"
    assume "same_but_exact x y"
    then have "same_but_exact (adaptivity_step cfg lib x) (adaptivity_step cfg lib y)"
      by (rule same_but_exact_step)
    then show "same_but_exact (adaptivity_step cfg lib x) (adaptivity_step cfg lib y)
        \<and> done_flag (adaptivity_step cfg lib x) = done_flag (adaptivity_step cfg lib y)"
      by (simp add: same_but_exact_fields(1))
  qed
qed

theorem exact_solution_does_not_steer_the_loop_witness:
  "same_but_exact toy_hcurl_state (toy_hcurl_state\<lparr>sln_exact := 9\<rparr>)
   \<and> same_but_exact
       (adaptivity_step (hcurl_config 100000) (distance_library 2) toy_hcurl_state)
       (adaptivity_step (hcurl_config 100000) (distance_library 2)
          (toy_hcurl_state\<lparr>sln_exact := 9\<rparr>))
   \<and> rel_option same_but_exact
       (adaptivity_loop (hcurl_config 100000) (distance_library 2) toy_hcurl_state)
       (adaptivity_loop (hcurl_config 100000) (distance_library 2)
          (toy_hcurl_state\<lparr>sln_exact := 9\<rparr>))
   \<and> err_exact_rel_of (distance_library 2) toy_hcurl_state = 700
   \<and> err_exact_rel_of (distance_library 2) (toy_hcurl_state\<lparr>sln_exact := 9\<rparr>) = 900"
proof -
  have h: "same_but_exact toy_hcurl_state (toy_hcurl_state\<lparr>sln_exact := 9\<rparr>)"
    by (simp add: same_but_exact_def toy_hcurl_state_def)
  have e: "err_exact_rel_of (distance_library 2) toy_hcurl_state = 700
      \<and> err_exact_rel_of (distance_library 2) (toy_hcurl_state\<lparr>sln_exact := 9\<rparr>) = 900"
    by (simp add: err_exact_rel_of_def hcurl_step_defs distance_library_def toy_library_def
        toy_hcurl_state_def)
  from h e
    exact_solution_does_not_steer_the_loop [of toy_hcurl_state "toy_hcurl_state\<lparr>sln_exact := 9\<rparr>"
      "hcurl_config 100000" "distance_library 2"]
  show ?thesis by simp
qed

text \<open>
  C8 (what the code does). A step of the static driver appends one pair of DOF count and
  error to the graph of the estimate and one to the graph of the exact error, and saves each
  graph to its file. It leaves \<^verbatim>\<open>graph_cpu_est\<close> and \<^verbatim>\<open>graph_cpu_exact\<close> as they are: after
  a run of two steps the two DOF graphs hold two pairs and the two CPU graphs are empty.
\<close>

theorem cpu_graphs_stay_empty:
  "graph_dof_est (adaptivity_step cfg lib s)
     = graph_dof_est s @ [(get_num_dofs lib (space s), err_est_rel_of lib s)]
   \<and> conv_dof_est_dat (adaptivity_step cfg lib s) = graph_dof_est (adaptivity_step cfg lib s)
   \<and> graph_dof_exact (adaptivity_step cfg lib s)
     = graph_dof_exact s @ [(get_num_dofs lib (space s), err_exact_rel_of lib s)]
   \<and> conv_dof_exact_dat (adaptivity_step cfg lib s) = graph_dof_exact (adaptivity_step cfg lib s)
   \<and> graph_cpu_est (adaptivity_step cfg lib s) = graph_cpu_est s
   \<and> graph_cpu_exact (adaptivity_step cfg lib s) = graph_cpu_exact s
   \<and> (\<exists>s'. hcurl_main (hcurl_config 3) (toy_library False 0.5 False 1) toy_hcurl_state
           = Some (0, s')
         \<and> graph_dof_est s' = [(1, 50), (2, 25)] \<and> graph_dof_exact s' = [(1, 50), (2, 25)]
         \<and> graph_cpu_est s' = [] \<and> graph_cpu_exact s' = [])"
proof (intro conjI)
  show "graph_dof_est (adaptivity_step cfg lib s)
      = graph_dof_est s @ [(get_num_dofs lib (space s), err_est_rel_of lib s)]"
    and "conv_dof_est_dat (adaptivity_step cfg lib s) = graph_dof_est (adaptivity_step cfg lib s)"
    and "graph_dof_exact (adaptivity_step cfg lib s)
      = graph_dof_exact s @ [(get_num_dofs lib (space s), err_exact_rel_of lib s)]"
    and "conv_dof_exact_dat (adaptivity_step cfg lib s)
      = graph_dof_exact (adaptivity_step cfg lib s)"
    and "graph_cpu_est (adaptivity_step cfg lib s) = graph_cpu_est s"
    and "graph_cpu_exact (adaptivity_step cfg lib s) = graph_cpu_exact s"
    by (simp_all add: adaptivity_step_decide err_est_rel_of_def err_exact_rel_of_def
        decide_def add_graph_entries_def project_coarse_def solve_reference_def
        case_prod_beta Let_def)
next
  have "hcurl_main (hcurl_config 3) (toy_library False 0.5 False 1) toy_hcurl_state
      = Some (0, adaptivity_step (hcurl_config 3) (toy_library False 0.5 False 1)
          (adaptivity_step (hcurl_config 3) (toy_library False 0.5 False 1)
             (hcurl_start toy_hcurl_state)))"
    using toy_hcurl_run by (simp add: hcurl_main_def)
  moreover have "graph_dof_est (adaptivity_step (hcurl_config 3) (toy_library False 0.5 False 1)
      (adaptivity_step (hcurl_config 3) (toy_library False 0.5 False 1)
         (hcurl_start toy_hcurl_state))) = [(1, 50), (2, 25)]
    \<and> graph_dof_exact (adaptivity_step (hcurl_config 3) (toy_library False 0.5 False 1)
      (adaptivity_step (hcurl_config 3) (toy_library False 0.5 False 1)
         (hcurl_start toy_hcurl_state))) = [(1, 50), (2, 25)]
    \<and> graph_cpu_est (adaptivity_step (hcurl_config 3) (toy_library False 0.5 False 1)
      (adaptivity_step (hcurl_config 3) (toy_library False 0.5 False 1)
         (hcurl_start toy_hcurl_state))) = []
    \<and> graph_cpu_exact (adaptivity_step (hcurl_config 3) (toy_library False 0.5 False 1)
      (adaptivity_step (hcurl_config 3) (toy_library False 0.5 False 1)
         (hcurl_start toy_hcurl_state))) = []"
    by (simp add: hcurl_step_defs hcurl_start_def hcurl_config_def toy_library_def
        toy_hcurl_state_def)
  ultimately show "\<exists>s'. hcurl_main (hcurl_config 3) (toy_library False 0.5 False 1)
        toy_hcurl_state = Some (0, s')
      \<and> graph_dof_est s' = [(1, 50), (2, 25)] \<and> graph_dof_exact s' = [(1, 50), (2, 25)]
      \<and> graph_cpu_est s' = [] \<and> graph_cpu_exact s' = []"
    by blast
qed

end
